theory Spec2Isabelle
  imports Main
begin

section \<open>Data model\<close>

text \<open>
  The relationship subsystem of the server lives in two route modules, each over its own
  Mongoose model: \<^verbatim>\<open>routes/connections copy.js\<close> over \<^verbatim>\<open>models/Connection.js\<close> (friend and
  career-agent links in one collection) and \<^verbatim>\<open>routes/careerAgent copy.js\<close> over
  \<^verbatim>\<open>models/CareerAgent.js\<close> (career-agent links only). Both are embedded here. A collection
  is a list of documents in insertion order; a route handler takes the collection and
  returns its response together with the collection after the request.

  User ids are strings, dates are numbers (the clock reading \<open>now\<close> is an argument of every
  handler that calls \<^verbatim>\<open>new Date()\<close> or relies on the schema default \<^verbatim>\<open>Date.now\<close>), and an
  ObjectId is a number. A body or document field that JavaScript may leave \<^verbatim>\<open>undefined\<close> is
  an \<open>option\<close>. The store-maintained \<^verbatim>\<open>createdAt\<close>/\<^verbatim>\<open>updatedAt\<close> stamps are read by none of the
  handlers below and are not part of the documents.

  A string is a sequence of UTF-16 code units, as in JavaScript; the strings of the model are
  those whose code units lie below \<open>0x100\<close>, one \<open>char\<close> per code unit, so that \<open>length\<close> is
  the \<^verbatim>\<open>.length\<close> of the string.

  The store answers every query. The errors it raises by the schemas' own declarations
  (validation at \<^verbatim>\<open>save()\<close>, the unique indexes, a path parameter that is no ObjectId) are
  part of the model; an unreachable store, or a query the store refuses for a reason of its
  own, is not.
\<close>

type_synonym userId = string
type_synonym date = nat
type_synonym objectId = nat

datatype status = active | inactive | pending | proposed | requested | rejected

datatype connectionType = friend | careerAgent

record connection =
  connectionId :: objectId
  careerAgentId :: "userId option"
  candidateId :: "userId option"
  requestorUserId :: "userId option"
  recipientUserId :: "userId option"
  connectionType :: connectionType
  relationshipStatus :: status
  startDate :: "date option"
  endDate :: "date option"
  message :: "string option"

text \<open>The enum strings of the schemas, as the request bodies carry them.\<close>

definition parse_status :: "string \<Rightarrow> status option" where
  "parse_status s =
     (if s = ''active'' then Some active
      else if s = ''inactive'' then Some inactive
      else if s = ''pending'' then Some pending
      else if s = ''proposed'' then Some proposed
      else if s = ''requested'' then Some requested
      else if s = ''rejected'' then Some rejected
      else None)"

definition parse_type :: "string \<Rightarrow> connectionType option" where
  "parse_type s =
     (if s = ''friend'' then Some friend
      else if s = ''careerAgent'' then Some careerAgent
      else None)"

subsection \<open>Responses\<close>

text \<open>
  Every \<^verbatim>\<open>res.status(...)\<close> of the handlers that is not a success is one constructor;
  \<open>http_status\<close> is the code it sends. \<open>kind_of\<close> reads a response in the failure taxonomy
  of the engine: a 404 is \<open>NotFound\<close>, a 403 is \<open>Forbidden\<close>, a 500 is the infrastructure
  error, and a 400 is \<open>Conflict\<close> when its message reports an existing record or a wrong
  current status and \<open>ValidationError\<close> when it reports malformed input.
\<close>

datatype error =
    ValidationFailed
  | MissingFields
  | InvalidConnectionType
  | SelfRelationship
  | ProfileNotFound
  | ActiveAgentExists
  | AlreadyExists
  | DuplicateKey
  | InvalidId
  | RecordNotFound
  | NotAuthorized
  | WrongState
  | InternalServerError

fun http_status :: "error \<Rightarrow> nat" where
  "http_status ValidationFailed = 400"
| "http_status MissingFields = 400"
| "http_status InvalidConnectionType = 400"
| "http_status SelfRelationship = 400"
| "http_status ProfileNotFound = 404"
| "http_status ActiveAgentExists = 400"
| "http_status AlreadyExists = 400"
| "http_status DuplicateKey = 400"
| "http_status InvalidId = 400"
| "http_status RecordNotFound = 404"
| "http_status NotAuthorized = 403"
| "http_status WrongState = 400"
| "http_status InternalServerError = 500"

datatype failure_kind = ValidationError | NotFound | Conflict | Forbidden | Infrastructure

fun kind_of :: "error \<Rightarrow> failure_kind" where
  "kind_of ValidationFailed = ValidationError"
| "kind_of MissingFields = ValidationError"
| "kind_of InvalidConnectionType = ValidationError"
| "kind_of SelfRelationship = ValidationError"
| "kind_of ProfileNotFound = NotFound"
| "kind_of ActiveAgentExists = Conflict"
| "kind_of AlreadyExists = Conflict"
| "kind_of DuplicateKey = Conflict"
| "kind_of InvalidId = ValidationError"
| "kind_of RecordNotFound = NotFound"
| "kind_of NotAuthorized = Forbidden"
| "kind_of WrongState = Conflict"
| "kind_of InternalServerError = Infrastructure"

subsection \<open>JavaScript and validator helpers\<close>

text \<open>\<^verbatim>\<open>!x\<close> on a string-or-undefined value: true for \<^verbatim>\<open>undefined\<close> and for the empty string.\<close>

definition falsy :: "string option \<Rightarrow> bool" where
  "falsy x = (x = None \<or> x = Some [])"

text \<open>
  The \<^verbatim>\<open>trim()\<close> sanitizer of express-validator strips, at both ends, the characters that the
  JavaScript pattern \<^verbatim>\<open>\s\<close> matches. Below \<open>0x100\<close> these are tab, line feed, vertical tab,
  form feed, carriage return, space and the no-break space U+00A0.
\<close>

definition is_space :: "char \<Rightarrow> bool" where
  "is_space c =
     (c \<in> set [CHR 0x09, CHR 0x0A, CHR 0x0B, CHR 0x0C, CHR 0x0D, CHR 0x20, CHR 0xA0])"

definition trim :: "string \<Rightarrow> string" where
  "trim s = rev (dropWhile is_space (rev (dropWhile is_space s)))"

text \<open>
  \<^verbatim>\<open>body(f).trim().isLength({ min: 1 })\<close>: an absent field is read as the empty string; the
  sanitized value replaces the field. \<open>None\<close> is a validation error.
\<close>

definition required_trimmed :: "string option \<Rightarrow> string option" where
  "required_trimmed x =
     (let v = trim (case x of None \<Rightarrow> [] | Some s \<Rightarrow> s)
      in if 1 \<le> length v then Some v else None)"

text \<open>
  \<^verbatim>\<open>body('message').optional().trim().isLength({ max: 1000 })\<close>: the chain is skipped for an
  absent field. The outer \<open>None\<close> is a validation error.
\<close>

definition optional_message :: "string option \<Rightarrow> string option option" where
  "optional_message x =
     (case x of None \<Rightarrow> Some None
      | Some s \<Rightarrow> if length (trim s) \<le> 1000 then Some (Some (trim s)) else None)"

text \<open>\<^verbatim>\<open>body('relationshipStatus').optional().isIn([...])\<close> over the six enum strings.\<close>

definition optional_status_ok :: "string option \<Rightarrow> bool" where
  "optional_status_ok x = (case x of None \<Rightarrow> True | Some s \<Rightarrow> parse_status s \<noteq> None)"

subsection \<open>The Identity Directory\<close>

text \<open>
  \<^verbatim>\<open>models/UserProfile.js\<close> is not among the sources, and the handlers only ask whether a
  profile with a given \<^verbatim>\<open>userId\<close> exists (or list the profiles). The directory is therefore
  an argument: the list of the user ids that have a profile, in collection order. Every
  profile carries a \<^verbatim>\<open>userId\<close>, so a lookup with an \<^verbatim>\<open>undefined\<close> id finds nothing.
\<close>

definition profile_exists :: "userId list \<Rightarrow> userId option \<Rightarrow> bool" where
  "profile_exists dir x = (case x of None \<Rightarrow> False | Some u \<Rightarrow> u \<in> set dir)"

section \<open>The Connection collection\<close>

definition findById :: "objectId \<Rightarrow> connection list \<Rightarrow> connection option" where
  "findById i s = find (\<lambda>c. connectionId c = i) s"

text \<open>A new document gets an ObjectId that no document of the collection has.\<close>

definition new_id :: "connection list \<Rightarrow> objectId" where
  "new_id s = Suc (fold max (map connectionId s) 0)"

text \<open>
  Schema validation of \<^verbatim>\<open>models/Connection.js\<close> at \<^verbatim>\<open>save()\<close>: the conditionally required
  party ids (a required string must be non-empty) and \<^verbatim>\<open>maxlength: 1000\<close> on the message.
  The enum fields are typed, so a string outside the enum is rejected where it is parsed.
\<close>

definition schema_valid :: "connection \<Rightarrow> bool" where
  "schema_valid c =
     ((if connectionType c = careerAgent
       then \<not> falsy (careerAgentId c) \<and> \<not> falsy (candidateId c)
       else \<not> falsy (requestorUserId c) \<and> \<not> falsy (recipientUserId c))
      \<and> (case message c of None \<Rightarrow> True | Some m \<Rightarrow> length m \<le> 1000))"

text \<open>
  The two unique partial indexes of the schema. The first holds the documents with
  \<^verbatim>\<open>relationshipStatus: 'active'\<close> and \<^verbatim>\<open>connectionType: 'careerAgent'\<close>, keyed by candidate
  (status and type are fixed by the filter); the second holds the friend documents, keyed
  by requestor and recipient. A write of \<open>d\<close> raises the duplicate-key error (code 11000)
  when another document holds the same key in an index that \<open>d\<close> belongs to.
\<close>

definition in_active_index :: "connection \<Rightarrow> bool" where
  "in_active_index c = (relationshipStatus c = active \<and> connectionType c = careerAgent)"

definition duplicate_key :: "connection list \<Rightarrow> connection \<Rightarrow> bool" where
  "duplicate_key s d =
     list_ex (\<lambda>c. connectionId c \<noteq> connectionId d \<and>
        ((in_active_index c \<and> in_active_index d \<and> candidateId c = candidateId d) \<or>
         (connectionType c = friend \<and> connectionType d = friend \<and>
          requestorUserId c = requestorUserId d \<and> recipientUserId c = recipientUserId d))) s"

datatype save_error = SchemaValidationError | DuplicateKeyError

text \<open>
  \<^verbatim>\<open>doc.save()\<close>: validate, then insert the new document or replace the stored one with the
  same id, unless a unique index refuses the write.
\<close>

definition save :: "connection list \<Rightarrow> connection \<Rightarrow> save_error + connection list" where
  "save s d =
     (if \<not> schema_valid d then Inl SchemaValidationError
      else if duplicate_key s d then Inl DuplicateKeyError
      else if list_ex (\<lambda>c. connectionId c = connectionId d) s
           then Inr (map (\<lambda>c. if connectionId c = connectionId d then d else c) s)
           else Inr (s @ [d]))"

subsection \<open>POST /api/connections\<close>

record create_body =
  b_careerAgentId :: "string option"
  b_candidateId :: "string option"
  b_requestorUserId :: "string option"
  b_recipientUserId :: "string option"
  b_connectionType :: "string option"
  b_message :: "string option"
  b_relationshipStatus :: "string option"

text \<open>
  \<^verbatim>\<open>validateConnectionRelationship\<close>: the sanitized body, or \<open>None\<close> when
  \<^verbatim>\<open>validationResult(req)\<close> is not empty. The party-id chains run only under their
  \<^verbatim>\<open>.if(body('connectionType').equals(...))\<close> condition.
\<close>

definition validateConnectionRelationship :: "create_body \<Rightarrow> create_body option" where
  "validateConnectionRelationship b =
     (case b_connectionType b of None \<Rightarrow> None
      | Some t \<Rightarrow>
        (case parse_type t of None \<Rightarrow> None
         | Some ty \<Rightarrow>
           (case optional_message (b_message b) of None \<Rightarrow> None
            | Some m \<Rightarrow>
              if \<not> optional_status_ok (b_relationshipStatus b) then None
              else if ty = careerAgent then
                (case (required_trimmed (b_careerAgentId b), required_trimmed (b_candidateId b)) of
                   (Some a, Some c) \<Rightarrow>
                     Some (b\<lparr>b_careerAgentId := Some a, b_candidateId := Some c, b_message := m\<rparr>)
                 | _ \<Rightarrow> None)
              else
                (case (required_trimmed (b_requestorUserId b), required_trimmed (b_recipientUserId b)) of
                   (Some rq, Some rc) \<Rightarrow>
                     Some (b\<lparr>b_requestorUserId := Some rq, b_recipientUserId := Some rc, b_message := m\<rparr>)
                 | _ \<Rightarrow> None))))"

text \<open>
  The \<^verbatim>\<open>$or\<close> query of the create and request handlers: a document of this type between
  the two users, in either requestor/recipient direction and in any status.
\<close>

definition existing_between ::
  "userId option \<Rightarrow> userId option \<Rightarrow> connectionType \<Rightarrow> connection \<Rightarrow> bool" where
  "existing_between rq rc ty c =
     ((requestorUserId c = rq \<and> recipientUserId c = rc \<and> connectionType c = ty) \<or>
      (requestorUserId c = rc \<and> recipientUserId c = rq \<and> connectionType c = ty))"

definition post_connection ::
  "userId list \<Rightarrow> date \<Rightarrow> connection list \<Rightarrow> create_body \<Rightarrow> (error + connection) \<times> connection list" where
  "post_connection dir now s body =
     (case validateConnectionRelationship body of
        None \<Rightarrow> (Inl ValidationFailed, s)
      | Some b \<Rightarrow>
        (case parse_type (case b_connectionType b of None \<Rightarrow> [] | Some t \<Rightarrow> t) of
           None \<Rightarrow> (Inl InternalServerError, s)
         | Some ty \<Rightarrow>
           if ty = careerAgent \<and> (falsy (b_careerAgentId b) \<or> falsy (b_candidateId b))
             then (Inl MissingFields, s)
           else if ty = friend \<and> (falsy (b_requestorUserId b) \<or> falsy (b_recipientUserId b))
             then (Inl MissingFields, s)
           else if \<not> profile_exists dir (b_requestorUserId b) then (Inl ProfileNotFound, s)
           else if \<not> profile_exists dir (b_recipientUserId b) then (Inl ProfileNotFound, s)
           else if list_ex (existing_between (b_requestorUserId b) (b_recipientUserId b) ty) s
             then (Inl AlreadyExists, s)
           else
             (case parse_status (case b_relationshipStatus b of None \<Rightarrow> ''pending'' | Some st \<Rightarrow> st) of
                None \<Rightarrow> (Inl InternalServerError, s)
              | Some st \<Rightarrow>
                (let d = \<lparr> connectionId = new_id s,
                           careerAgentId = (if ty = careerAgent then b_careerAgentId b else None),
                           candidateId = (if ty = careerAgent then b_candidateId b else None),
                           requestorUserId = b_requestorUserId b,
                           recipientUserId = b_recipientUserId b,
                           connectionType = ty,
                           relationshipStatus = st,
                           startDate = Some now,
                           endDate = None,
                           message = b_message b \<rparr>
                 in case save s d of
                      Inl DuplicateKeyError \<Rightarrow> (Inl DuplicateKey, s)
                    | Inl SchemaValidationError \<Rightarrow> (Inl InternalServerError, s)
                    | Inr s' \<Rightarrow> (Inr d, s')))))"

subsection \<open>POST /api/connections/request\<close>

definition post_request ::
  "userId list \<Rightarrow> date \<Rightarrow> connection list \<Rightarrow> userId \<Rightarrow>
   string option \<Rightarrow> string option \<Rightarrow> string option \<Rightarrow> (error + connection) \<times> connection list" where
  "post_request dir now s userId recipient ctype msg =
     (if falsy recipient \<or> falsy ctype then (Inl MissingFields, s)
      else
        (case parse_type (case ctype of None \<Rightarrow> [] | Some t \<Rightarrow> t) of
           None \<Rightarrow> (Inl InvalidConnectionType, s)
         | Some ty \<Rightarrow>
           if \<not> profile_exists dir recipient then (Inl ProfileNotFound, s)
           else if list_ex (existing_between (Some userId) recipient ty) s
             then (Inl AlreadyExists, s)
           else
             (let d = \<lparr> connectionId = new_id s,
                        careerAgentId = (if ty = careerAgent then Some userId else None),
                        candidateId = (if ty = careerAgent then recipient else None),
                        requestorUserId = Some userId,
                        recipientUserId = recipient,
                        connectionType = ty,
                        relationshipStatus = requested,
                        startDate = Some now,
                        endDate = None,
                        message = msg \<rparr>
              in case save s d of
                   Inl e \<Rightarrow> (Inl InternalServerError, s)
                 | Inr s' \<Rightarrow> (Inr d, s'))))"

subsection \<open>POST /api/connections/propose\<close>

text \<open>The three-way \<^verbatim>\<open>$or\<close> query of the propose handler.\<close>

definition existing_proposal :: "userId \<Rightarrow> userId option \<Rightarrow> connection \<Rightarrow> bool" where
  "existing_proposal agent cand c =
     (connectionType c = careerAgent \<and>
      ((careerAgentId c = Some agent \<and> candidateId c = cand) \<or>
       (requestorUserId c = Some agent \<and> recipientUserId c = cand) \<or>
       (requestorUserId c = cand \<and> recipientUserId c = Some agent)))"

definition post_propose ::
  "userId list \<Rightarrow> date \<Rightarrow> connection list \<Rightarrow> userId \<Rightarrow>
   string option \<Rightarrow> string option \<Rightarrow> (error + connection) \<times> connection list" where
  "post_propose dir now s userId candidateUserId msg =
     (if falsy candidateUserId then (Inl MissingFields, s)
      else if \<not> profile_exists dir candidateUserId then (Inl ProfileNotFound, s)
      else if list_ex (existing_proposal userId candidateUserId) s then (Inl AlreadyExists, s)
      else
        (let d = \<lparr> connectionId = new_id s,
                   careerAgentId = Some userId,
                   candidateId = candidateUserId,
                   requestorUserId = Some userId,
                   recipientUserId = candidateUserId,
                   connectionType = careerAgent,
                   relationshipStatus = proposed,
                   startDate = Some now,
                   endDate = None,
                   message = msg \<rparr>
         in case save s d of
              Inl e \<Rightarrow> (Inl InternalServerError, s)
            | Inr s' \<Rightarrow> (Inr d, s')))"

subsection \<open>GET /api/connections/potentialcontact\<close>






subsection \<open>PUT /api/connections/:connectionId/accept\<close>

text \<open>
  The path parameter is \<open>None\<close> when \<^verbatim>\<open>mongoose.Types.ObjectId.isValid\<close> rejects it. The
  handler has no \<^verbatim>\<open>error.code === 11000\<close> branch: every error of \<^verbatim>\<open>save()\<close> is answered 500.
\<close>

definition acceptableStatuses :: "status list" where
  "acceptableStatuses = [requested, proposed, pending]"

definition put_accept ::
  "date \<Rightarrow> connection list \<Rightarrow> userId \<Rightarrow> objectId option \<Rightarrow> (error + connection) \<times> connection list" where
  "put_accept now s userId param =
     (case param of None \<Rightarrow> (Inl InvalidId, s)
      | Some i \<Rightarrow>
        (case findById i s of None \<Rightarrow> (Inl RecordNotFound, s)
         | Some c \<Rightarrow>
           if recipientUserId c \<noteq> Some userId \<and> candidateId c \<noteq> Some userId
             then (Inl NotAuthorized, s)
           else if relationshipStatus c \<notin> set acceptableStatuses then (Inl WrongState, s)
           else
             (let c' = c\<lparr>relationshipStatus := active, startDate := Some now\<rparr>
              in case save s c' of
                   Inl e \<Rightarrow> (Inl InternalServerError, s)
                 | Inr s' \<Rightarrow> (Inr c', s'))))"

subsection \<open>PUT /api/connections/:connectionId/reject\<close>

definition put_reject ::
  "connection list \<Rightarrow> userId \<Rightarrow> objectId option \<Rightarrow> string option \<Rightarrow>
   (error + connection) \<times> connection list" where
  "put_reject s userId param msg =
     (case param of None \<Rightarrow> (Inl InvalidId, s)
      | Some i \<Rightarrow>
        (case findById i s of None \<Rightarrow> (Inl RecordNotFound, s)
         | Some c \<Rightarrow>
           if recipientUserId c \<noteq> Some userId \<and> candidateId c \<noteq> Some userId
             then (Inl NotAuthorized, s)
           else
             (let c' = c\<lparr>relationshipStatus := rejected,
                          message := (if falsy msg then message c else msg)\<rparr>
              in case save s c' of
                   Inl e \<Rightarrow> (Inl InternalServerError, s)
                 | Inr s' \<Rightarrow> (Inr c', s'))))"

subsection \<open>PUT /api/connections/:connectionId\<close>

text \<open>
  The body's \<^verbatim>\<open>endDate\<close> is the date its string denotes. A \<^verbatim>\<open>relationshipStatus\<close> outside the
  schema enum fails validation at \<^verbatim>\<open>save()\<close>.
\<close>

definition put_connection ::
  "connection list \<Rightarrow> userId \<Rightarrow> objectId option \<Rightarrow>
   string option \<Rightarrow> string option \<Rightarrow> date option \<Rightarrow> (error + connection) \<times> connection list" where
  "put_connection s userId param st msg ed =
     (case param of None \<Rightarrow> (Inl InvalidId, s)
      | Some i \<Rightarrow>
        (case findById i s of None \<Rightarrow> (Inl RecordNotFound, s)
         | Some c \<Rightarrow>
           if Some userId \<notin> set [requestorUserId c, recipientUserId c, careerAgentId c, candidateId c]
             then (Inl NotAuthorized, s)
           else
             (case (if falsy st then Some (relationshipStatus c)
                    else parse_status (case st of None \<Rightarrow> [] | Some x \<Rightarrow> x)) of
                None \<Rightarrow> (Inl InternalServerError, s)
              | Some st' \<Rightarrow>
                (let c' = c\<lparr>relationshipStatus := st',
                             message := (if msg \<noteq> None then msg else message c),
                             endDate := (if ed \<noteq> None then ed else endDate c)\<rparr>
                 in case save s c' of
                      Inl e \<Rightarrow> (Inl InternalServerError, s)
                    | Inr s' \<Rightarrow> (Inr c', s')))))"

section \<open>The CareerAgent collection\<close>

text \<open>
  \<^verbatim>\<open>models/CareerAgent.js\<close>: both party ids are required strings; the field names carry the
  prefix \<open>ca_\<close> here because the Connection documents use the same names.
\<close>

record careerAgentDoc =
  relationshipId :: objectId
  ca_careerAgentId :: userId
  ca_candidateId :: userId
  ca_relationshipStatus :: status
  ca_startDate :: "date option"
  ca_endDate :: "date option"
  ca_message :: "string option"

definition ca_findById :: "objectId \<Rightarrow> careerAgentDoc list \<Rightarrow> careerAgentDoc option" where
  "ca_findById i s = find (\<lambda>r. relationshipId r = i) s"

definition ca_new_id :: "careerAgentDoc list \<Rightarrow> objectId" where
  "ca_new_id s = Suc (fold max (map relationshipId s) 0)"

definition ca_schema_valid :: "careerAgentDoc \<Rightarrow> bool" where
  "ca_schema_valid r =
     (ca_careerAgentId r \<noteq> [] \<and> ca_candidateId r \<noteq> [] \<and>
      (case ca_message r of None \<Rightarrow> True | Some m \<Rightarrow> length m \<le> 1000))"

text \<open>
  The unique partial index of the schema holds the documents with
  \<^verbatim>\<open>relationshipStatus: 'active'\<close>, keyed by candidate.
\<close>

definition ca_duplicate_key :: "careerAgentDoc list \<Rightarrow> careerAgentDoc \<Rightarrow> bool" where
  "ca_duplicate_key s d =
     list_ex (\<lambda>r. relationshipId r \<noteq> relationshipId d \<and>
        ca_relationshipStatus r = active \<and> ca_relationshipStatus d = active \<and>
        ca_candidateId r = ca_candidateId d) s"

definition ca_save :: "careerAgentDoc list \<Rightarrow> careerAgentDoc \<Rightarrow> save_error + careerAgentDoc list" where
  "ca_save s d =
     (if \<not> ca_schema_valid d then Inl SchemaValidationError
      else if ca_duplicate_key s d then Inl DuplicateKeyError
      else if list_ex (\<lambda>r. relationshipId r = relationshipId d) s
           then Inr (map (\<lambda>r. if relationshipId r = relationshipId d then d else r) s)
           else Inr (s @ [d]))"

text \<open>The two lookups that the create, request and propose handlers share.\<close>

definition existingActiveRelationship :: "userId \<Rightarrow> careerAgentDoc list \<Rightarrow> careerAgentDoc option" where
  "existingActiveRelationship cand s =
     find (\<lambda>r. ca_candidateId r = cand \<and> ca_relationshipStatus r = active) s"

definition existingPairRelationship ::
  "userId \<Rightarrow> userId \<Rightarrow> status list \<Rightarrow> careerAgentDoc list \<Rightarrow> careerAgentDoc option" where
  "existingPairRelationship agent cand sts s =
     find (\<lambda>r. ca_careerAgentId r = agent \<and> ca_candidateId r = cand \<and>
                ca_relationshipStatus r \<in> set sts) s"

subsection \<open>POST /api/careeragent\<close>

record ca_create_body =
  cb_careerAgentId :: "string option"
  cb_candidateId :: "string option"
  cb_message :: "string option"
  cb_relationshipStatus :: "string option"

text \<open>\<^verbatim>\<open>validateCareerAgentRelationship\<close>: the sanitized body, or \<open>None\<close> on a validation error.\<close>

definition validateCareerAgentRelationship :: "ca_create_body \<Rightarrow> ca_create_body option" where
  "validateCareerAgentRelationship b =
     (case (required_trimmed (cb_careerAgentId b), required_trimmed (cb_candidateId b),
            optional_message (cb_message b)) of
        (Some a, Some c, Some m) \<Rightarrow>
          if optional_status_ok (cb_relationshipStatus b)
          then Some (b\<lparr>cb_careerAgentId := Some a, cb_candidateId := Some c, cb_message := m\<rparr>)
          else None
      | _ \<Rightarrow> None)"

definition ca_post ::
  "userId list \<Rightarrow> date \<Rightarrow> careerAgentDoc list \<Rightarrow> ca_create_body \<Rightarrow>
   (error + careerAgentDoc) \<times> careerAgentDoc list" where
  "ca_post dir now s body =
     (case validateCareerAgentRelationship body of
        None \<Rightarrow> (Inl ValidationFailed, s)
      | Some b \<Rightarrow>
        (case (cb_careerAgentId b, cb_candidateId b) of
           (Some agent, Some cand) \<Rightarrow>
             if agent = cand then (Inl SelfRelationship, s)
             else if \<not> profile_exists dir (Some agent) then (Inl ProfileNotFound, s)
             else if \<not> profile_exists dir (Some cand) then (Inl ProfileNotFound, s)
             else if existingActiveRelationship cand s \<noteq> None then (Inl ActiveAgentExists, s)
             else if existingPairRelationship agent cand [pending, proposed] s \<noteq> None
               then (Inl AlreadyExists, s)
             else
               (case parse_status (if falsy (cb_relationshipStatus b) then ''active''
                                   else (case cb_relationshipStatus b of None \<Rightarrow> [] | Some x \<Rightarrow> x)) of
                  None \<Rightarrow> (Inl InternalServerError, s)
                | Some st \<Rightarrow>
                  (let d = \<lparr> relationshipId = ca_new_id s,
                             ca_careerAgentId = agent,
                             ca_candidateId = cand,
                             ca_relationshipStatus = st,
                             ca_startDate = Some now,
                             ca_endDate = None,
                             ca_message = (if falsy (cb_message b) then Some [] else cb_message b) \<rparr>
                   in case ca_save s d of
                        Inl DuplicateKeyError \<Rightarrow> (Inl DuplicateKey, s)
                      | Inl SchemaValidationError \<Rightarrow> (Inl InternalServerError, s)
                      | Inr s' \<Rightarrow> (Inr d, s')))
         | _ \<Rightarrow> (Inl InternalServerError, s)))"

subsection \<open>POST /api/careeragent/request\<close>

text \<open>
  The acting user is the candidate. \<open>firstName\<close> is \<^verbatim>\<open>req.user.firstName\<close>, used in the
  default message.
\<close>

definition ca_post_request ::
  "userId list \<Rightarrow> date \<Rightarrow> careerAgentDoc list \<Rightarrow> userId \<Rightarrow> string option \<Rightarrow>
   string option \<Rightarrow> string option \<Rightarrow> (error + careerAgentDoc) \<times> careerAgentDoc list" where
  "ca_post_request dir now s userId firstName reqCareerAgentId msg =
     (if reqCareerAgentId = Some userId then (Inl SelfRelationship, s)
      else
        (case reqCareerAgentId of
           None \<Rightarrow> (Inl ProfileNotFound, s)
         | Some agent \<Rightarrow>
           if \<not> profile_exists dir (Some agent) then (Inl ProfileNotFound, s)
           else if existingActiveRelationship userId s \<noteq> None then (Inl ActiveAgentExists, s)
           else if existingPairRelationship agent userId [pending] s \<noteq> None
             then (Inl AlreadyExists, s)
           else
             (let d = \<lparr> relationshipId = ca_new_id s,
                        ca_careerAgentId = agent,
                        ca_candidateId = userId,
                        ca_relationshipStatus = pending,
                        ca_startDate = Some now,
                        ca_endDate = None,
                        ca_message =
                          (if falsy msg
                           then Some ((case firstName of None \<Rightarrow> ''User''
                                       | Some f \<Rightarrow> if f = [] then ''User'' else f)
                                      @ '' has requested you to be their career agent'')
                           else msg) \<rparr>
              in case ca_save s d of
                   Inl e \<Rightarrow> (Inl InternalServerError, s)
                 | Inr s' \<Rightarrow> (Inr d, s'))))"

subsection \<open>POST /api/careeragent/propose\<close>

text \<open>The acting user is the agent.\<close>

definition ca_post_propose ::
  "userId list \<Rightarrow> date \<Rightarrow> careerAgentDoc list \<Rightarrow> userId \<Rightarrow> string option \<Rightarrow>
   string option \<Rightarrow> string option \<Rightarrow> (error + careerAgentDoc) \<times> careerAgentDoc list" where
  "ca_post_propose dir now s userId firstName reqCandidateId msg =
     (if reqCandidateId = Some userId then (Inl SelfRelationship, s)
      else
        (case reqCandidateId of
           None \<Rightarrow> (Inl ProfileNotFound, s)
         | Some cand \<Rightarrow>
           if \<not> profile_exists dir (Some cand) then (Inl ProfileNotFound, s)
           else if existingActiveRelationship cand s \<noteq> None then (Inl ActiveAgentExists, s)
           else if existingPairRelationship userId cand [pending, proposed] s \<noteq> None
             then (Inl AlreadyExists, s)
           else
             (let d = \<lparr> relationshipId = ca_new_id s,
                        ca_careerAgentId = userId,
                        ca_candidateId = cand,
                        ca_relationshipStatus = proposed,
                        ca_startDate = Some now,
                        ca_endDate = None,
                        ca_message =
                          (if falsy msg
                           then Some ((case firstName of None \<Rightarrow> ''A career agent''
                                       | Some f \<Rightarrow> if f = [] then ''A career agent'' else f)
                                      @ '' has proposed to mentor you'')
                           else msg) \<rparr>
              in case ca_save s d of
                   Inl e \<Rightarrow> (Inl InternalServerError, s)
                 | Inr s' \<Rightarrow> (Inr d, s'))))"

subsection \<open>PUT /api/careeragent/:relationshipId/accept and /reject\<close>

text \<open>
  These handlers do not test the path parameter: a string that is no ObjectId (\<open>None\<close>)
  makes the query throw, which is answered 500. The query itself keeps only a document in
  status pending or proposed. A pending request may be settled by its agent, a proposal by
  its candidate.
\<close>

definition ca_find_open :: "objectId \<Rightarrow> careerAgentDoc list \<Rightarrow> careerAgentDoc option" where
  "ca_find_open i s =
     find (\<lambda>r. relationshipId r = i \<and> ca_relationshipStatus r \<in> set [pending, proposed]) s"

definition isAuthorized :: "careerAgentDoc \<Rightarrow> userId \<Rightarrow> bool" where
  "isAuthorized r userId =
     (if ca_relationshipStatus r = pending then ca_careerAgentId r = userId
      else if ca_relationshipStatus r = proposed then ca_candidateId r = userId
      else False)"

definition ca_put_accept ::
  "date \<Rightarrow> careerAgentDoc list \<Rightarrow> userId \<Rightarrow> objectId option \<Rightarrow>
   (error + careerAgentDoc) \<times> careerAgentDoc list" where
  "ca_put_accept now s userId param =
     (case param of None \<Rightarrow> (Inl InternalServerError, s)
      | Some i \<Rightarrow>
        (case ca_find_open i s of None \<Rightarrow> (Inl RecordNotFound, s)
         | Some r \<Rightarrow>
           if \<not> isAuthorized r userId then (Inl NotAuthorized, s)
           else
             (let r' = r\<lparr>ca_relationshipStatus := active, ca_startDate := Some now\<rparr>
              in case ca_save s r' of
                   Inl e \<Rightarrow> (Inl InternalServerError, s)
                 | Inr s' \<Rightarrow> (Inr r', s'))))"

definition ca_put_reject ::
  "date \<Rightarrow> careerAgentDoc list \<Rightarrow> userId \<Rightarrow> objectId option \<Rightarrow> string option \<Rightarrow>
   (error + careerAgentDoc) \<times> careerAgentDoc list" where
  "ca_put_reject now s userId param msg =
     (case param of None \<Rightarrow> (Inl InternalServerError, s)
      | Some i \<Rightarrow>
        (case ca_find_open i s of None \<Rightarrow> (Inl RecordNotFound, s)
         | Some r \<Rightarrow>
           if \<not> isAuthorized r userId then (Inl NotAuthorized, s)
           else
             (let r' = r\<lparr>ca_relationshipStatus := inactive, ca_endDate := Some now,
                          ca_message := (if falsy msg then ca_message r else msg)\<rparr>
              in case ca_save s r' of
                   Inl e \<Rightarrow> (Inl InternalServerError, s)
                 | Inr s' \<Rightarrow> (Inr r', s'))))"

subsection \<open>PUT /api/careeragent/:relationshipId\<close>

text \<open>
  The handler passes the request body to \<^verbatim>\<open>findOneAndUpdate\<close> as the update, with
  \<^verbatim>\<open>runValidators\<close>: every schema path present in the body is set. It reads neither the
  acting user nor the current status. The update validators run before the query, and any
  error they or the store raise is answered 500.
\<close>

record ca_update_body =
  ub_careerAgentId :: "string option"
  ub_candidateId :: "string option"
  ub_relationshipStatus :: "string option"
  ub_startDate :: "date option"
  ub_endDate :: "date option"
  ub_message :: "string option"

definition ca_update_valid :: "ca_update_body \<Rightarrow> bool" where
  "ca_update_valid u =
     (ub_careerAgentId u \<noteq> Some [] \<and> ub_candidateId u \<noteq> Some [] \<and>
      (case ub_relationshipStatus u of None \<Rightarrow> True | Some x \<Rightarrow> parse_status x \<noteq> None) \<and>
      (case ub_message u of None \<Rightarrow> True | Some m \<Rightarrow> length m \<le> 1000))"

definition ca_apply_update :: "ca_update_body \<Rightarrow> careerAgentDoc \<Rightarrow> careerAgentDoc" where
  "ca_apply_update u r =
     r\<lparr>ca_careerAgentId := (case ub_careerAgentId u of None \<Rightarrow> ca_careerAgentId r | Some a \<Rightarrow> a),
       ca_candidateId := (case ub_candidateId u of None \<Rightarrow> ca_candidateId r | Some c \<Rightarrow> c),
       ca_relationshipStatus :=
         (case ub_relationshipStatus u of None \<Rightarrow> ca_relationshipStatus r
          | Some x \<Rightarrow> (case parse_status x of None \<Rightarrow> ca_relationshipStatus r | Some st \<Rightarrow> st)),
       ca_startDate := (if ub_startDate u \<noteq> None then ub_startDate u else ca_startDate r),
       ca_endDate := (if ub_endDate u \<noteq> None then ub_endDate u else ca_endDate r),
       ca_message := (if ub_message u \<noteq> None then ub_message u else ca_message r)\<rparr>"

definition ca_put ::
  "date \<Rightarrow> careerAgentDoc list \<Rightarrow> objectId option \<Rightarrow> ca_update_body \<Rightarrow>
   (error + careerAgentDoc) \<times> careerAgentDoc list" where
  "ca_put now s param body =
     (let updateData =
            (if ub_relationshipStatus body = Some ''inactive'' \<and> ub_endDate body = None
             then body\<lparr>ub_endDate := Some now\<rparr> else body)
      in case param of None \<Rightarrow> (Inl InternalServerError, s)
         | Some i \<Rightarrow>
           if \<not> ca_update_valid updateData then (Inl InternalServerError, s)
           else
             (case ca_findById i s of None \<Rightarrow> (Inl RecordNotFound, s)
              | Some r \<Rightarrow>
                (let r' = ca_apply_update updateData r
                 in if ca_duplicate_key s r' then (Inl InternalServerError, s)
                    else (Inr r', map (\<lambda>x. if relationshipId x = i then r' else x) s))))"

section \<open>Notions of the specification\<close>

text \<open>
  The receiving party of a relationship in the words of the engine's contract: the recipient
  for friend and agent-initiated records, the agent for a candidate-initiated career-agent
  record. In the CareerAgent collection a pending document is a candidate's request and a
  proposed one an agent's offer.
\<close>

definition spec_receiving_party :: "connection \<Rightarrow> userId option" where
  "spec_receiving_party c =
     (if connectionType c = careerAgent \<and> requestorUserId c = candidateId c
      then careerAgentId c else recipientUserId c)"

definition ca_spec_receiving_party :: "careerAgentDoc \<Rightarrow> userId" where
  "ca_spec_receiving_party r =
     (if ca_relationshipStatus r = pending then ca_careerAgentId r else ca_candidateId r)"

text \<open>
  The four party fields of a connection, and two users being named together by some record
  of the collection, whatever its type and status.
\<close>

definition parties :: "connection \<Rightarrow> userId option list" where
  "parties c = [requestorUserId c, recipientUserId c, careerAgentId c, candidateId c]"


text \<open>
  Candidate exclusivity of a collection: two active career-agent relationships of one
  candidate are one and the same record.
\<close>

definition ca_exclusive :: "careerAgentDoc list \<Rightarrow> bool" where
  "ca_exclusive t =
     list_all (\<lambda>x. list_all (\<lambda>y.
        if ca_relationshipStatus x = active \<and> ca_relationshipStatus y = active \<and>
           ca_candidateId x = ca_candidateId y
        then relationshipId x = relationshipId y else True) t) t"

definition exclusive :: "connection list \<Rightarrow> bool" where
  "exclusive s =
     list_all (\<lambda>x. list_all (\<lambda>y.
        if in_active_index x \<and> in_active_index y \<and> candidateId x = candidateId y
        then connectionId x = connectionId y else True) s) s"

section \<open>Example collections\<close>

text \<open>A friend request from U1 to U2, and a pending career-agent request of candidate K1 to agent A1.\<close>

definition ex_friend_request :: connection where
  "ex_friend_request =
     \<lparr> connectionId = 1, careerAgentId = None, candidateId = None,
       requestorUserId = Some ''U1'', recipientUserId = Some ''U2'',
       connectionType = friend, relationshipStatus = requested,
       startDate = Some 1, endDate = None, message = Some ''hello'' \<rparr>"

definition ex_pending_request :: careerAgentDoc where
  "ex_pending_request =
     \<lparr> relationshipId = 1, ca_careerAgentId = ''A1'', ca_candidateId = ''K1'',
       ca_relationshipStatus = pending, ca_startDate = Some 1, ca_endDate = None,
       ca_message = Some ''please'' \<rparr>"

text \<open>A career-agent connection that candidate K1 opened towards agent A1, and the body that creates it.\<close>

definition ex_candidate_request :: connection where
  "ex_candidate_request =
     \<lparr> connectionId = 1, careerAgentId = Some ''A1'', candidateId = Some ''K1'',
       requestorUserId = Some ''K1'', recipientUserId = Some ''A1'',
       connectionType = careerAgent, relationshipStatus = requested,
       startDate = Some 1, endDate = None, message = None \<rparr>"

definition ex_candidate_request_body :: create_body where
  "ex_candidate_request_body =
     \<lparr> b_careerAgentId = Some ''A1'', b_candidateId = Some ''K1'',
       b_requestorUserId = Some ''K1'', b_recipientUserId = Some ''A1'',
       b_connectionType = Some ''careerAgent'', b_message = None,
       b_relationshipStatus = Some ''requested'' \<rparr>"

text \<open>The friend request of U1 after U2 has rejected it on the connections route.\<close>

definition ex_rejected_friend :: connection where
  "ex_rejected_friend =
     \<lparr> connectionId = 1, careerAgentId = None, candidateId = None,
       requestorUserId = Some ''U1'', recipientUserId = Some ''U2'',
       connectionType = friend, relationshipStatus = rejected,
       startDate = Some 1, endDate = None, message = Some ''hello'' \<rparr>"

text \<open>A rejected document of the CareerAgent collection.\<close>

definition ex_rejected_relationship :: careerAgentDoc where
  "ex_rejected_relationship =
     \<lparr> relationshipId = 1, ca_careerAgentId = ''A1'', ca_candidateId = ''K1'',
       ca_relationshipStatus = rejected, ca_startDate = Some 1, ca_endDate = Some 2,
       ca_message = Some ''please'' \<rparr>"

text \<open>
  A career-agent relationship created directly with the status pending at time 7, and the
  connection that the same request creates on the connections route.
\<close>

definition ex_created_pending :: careerAgentDoc where
  "ex_created_pending =
     \<lparr> relationshipId = 1, ca_careerAgentId = ''A1'', ca_candidateId = ''K1'',
       ca_relationshipStatus = pending, ca_startDate = Some 7, ca_endDate = None,
       ca_message = Some [] \<rparr>"

definition ex_created_pending_body :: ca_create_body where
  "ex_created_pending_body =
     \<lparr> cb_careerAgentId = Some ''A1'', cb_candidateId = Some ''K1'', cb_message = None,
       cb_relationshipStatus = Some ''pending'' \<rparr>"

definition ex_created_connection :: connection where
  "ex_created_connection =
     \<lparr> connectionId = 1, careerAgentId = Some ''A1'', candidateId = Some ''K1'',
       requestorUserId = Some ''A1'', recipientUserId = Some ''K1'',
       connectionType = careerAgent, relationshipStatus = proposed,
       startDate = Some 7, endDate = None, message = None \<rparr>"

definition ex_created_connection_body :: create_body where
  "ex_created_connection_body =
     \<lparr> b_careerAgentId = Some ''A1'', b_candidateId = Some ''K1'',
       b_requestorUserId = Some ''A1'', b_recipientUserId = Some ''K1'',
       b_connectionType = Some ''careerAgent'', b_message = None,
       b_relationshipStatus = Some ''proposed'' \<rparr>"

text \<open>
  An offer of agent A1 to candidate K1 in the CareerAgent collection, and the request that
  K1 then sends to A1 at time 2.
\<close>

definition ex_proposal :: careerAgentDoc where
  "ex_proposal =
     \<lparr> relationshipId = 1, ca_careerAgentId = ''A1'', ca_candidateId = ''K1'',
       ca_relationshipStatus = proposed, ca_startDate = Some 1, ca_endDate = None,
       ca_message = Some ''offer'' \<rparr>"


text \<open>An active relationship of candidate K1 with agent A1, in each collection.\<close>

definition ex_active_relationship :: careerAgentDoc where
  "ex_active_relationship =
     \<lparr> relationshipId = 1, ca_careerAgentId = ''A1'', ca_candidateId = ''K1'',
       ca_relationshipStatus = active, ca_startDate = Some 1, ca_endDate = None,
       ca_message = Some ''offer'' \<rparr>"

definition ex_active_connection :: connection where
  "ex_active_connection =
     \<lparr> connectionId = 1, careerAgentId = Some ''A1'', candidateId = Some ''K1'',
       requestorUserId = Some ''A1'', recipientUserId = Some ''K1'',
       connectionType = careerAgent, relationshipStatus = active,
       startDate = Some 1, endDate = None, message = None \<rparr>"

text \<open>The offer that a second agent A2 makes to K1 at time 2 on the connections route.\<close>

definition ex_second_proposal :: connection where
  "ex_second_proposal =
     \<lparr> connectionId = 2, careerAgentId = Some ''A2'', candidateId = Some ''K1'',
       requestorUserId = Some ''A2'', recipientUserId = Some ''K1'',
       connectionType = careerAgent, relationshipStatus = proposed,
       startDate = Some 2, endDate = None, message = None \<rparr>"

text \<open>The offer of a second agent A2 to candidate K1 in the CareerAgent collection.\<close>

definition ex_proposal_A2 :: careerAgentDoc where
  "ex_proposal_A2 =
     \<lparr> relationshipId = 2, ca_careerAgentId = ''A2'', ca_candidateId = ''K1'',
       ca_relationshipStatus = proposed, ca_startDate = Some 2, ca_endDate = None,
       ca_message = Some ''offer'' \<rparr>"

text \<open>Connections of a user with themselves, as the connections route stores them at time 1.\<close>

definition ex_self_friend :: connection where
  "ex_self_friend =
     \<lparr> connectionId = 1, careerAgentId = None, candidateId = None,
       requestorUserId = Some ''U1'', recipientUserId = Some ''U1'',
       connectionType = friend, relationshipStatus = requested,
       startDate = Some 1, endDate = None, message = None \<rparr>"

definition ex_self_agent :: connection where
  "ex_self_agent =
     \<lparr> connectionId = 1, careerAgentId = Some ''U1'', candidateId = Some ''U1'',
       requestorUserId = Some ''U1'', recipientUserId = Some ''U1'',
       connectionType = careerAgent, relationshipStatus = proposed,
       startDate = Some 1, endDate = None, message = None \<rparr>"

definition ex_self_friend_body :: create_body where
  "ex_self_friend_body =
     \<lparr> b_careerAgentId = None, b_candidateId = None,
       b_requestorUserId = Some ''U1'', b_recipientUserId = Some ''U1'',
       b_connectionType = Some ''friend'', b_message = None,
       b_relationshipStatus = Some ''active'' \<rparr>"

text \<open>An update body that only ends a relationship.\<close>

definition ex_end_body :: ca_update_body where
  "ex_end_body =
     \<lparr> ub_careerAgentId = None, ub_candidateId = None,
       ub_relationshipStatus = Some ''inactive'', ub_startDate = None, ub_endDate = None,
       ub_message = None \<rparr>"

section \<open>Lemmas about the collections\<close>

lemma find_map_replace:
  "find (\<lambda>c. f c = i) s = Some c \<Longrightarrow> f c' = i \<Longrightarrow>
   find (\<lambda>c. f c = i) (map (\<lambda>x. if f x = i then c' else x) s) = Some c'"
  by (induction s) (auto split: if_splits)

lemma find_map_replace_other:
  "j \<noteq> i \<Longrightarrow> f c' = i \<Longrightarrow>
   find (\<lambda>c. f c = j) (map (\<lambda>x. if f x = i then c' else x) s) = find (\<lambda>c. f c = j) s"
  by (induction s) (auto split: if_splits)

lemma findById_id: "findById i s = Some c \<Longrightarrow> connectionId c = i"
  by (auto simp: findById_def find_Some_iff)

lemma findById_mem: "findById i s = Some c \<Longrightarrow> c \<in> set s"
  by (auto simp: findById_def find_Some_iff)

lemma findById_ex: "findById i s = Some c \<Longrightarrow> list_ex (\<lambda>x. connectionId x = i) s"
  by (auto simp: findById_def list_ex_iff find_Some_iff)

lemma save_existing:
  assumes "findById i s = Some c" and "connectionId d = i" and "save s d = Inr s'"
  shows "s' = map (\<lambda>x. if connectionId x = i then d else x) s"
  using assms findById_ex[OF assms(1)] by (auto simp: save_def split: if_splits)

lemma findById_saved:
  assumes "findById i s = Some c" and "connectionId d = i" and "save s d = Inr s'"
  shows "findById i s' = Some d"
  unfolding save_existing[OF assms] findById_def
  using assms(1,2) by (intro find_map_replace) (simp_all add: findById_def)

lemma ca_find_open_id: "ca_find_open i s = Some r \<Longrightarrow> relationshipId r = i"
  by (auto simp: ca_find_open_def find_Some_iff)

lemma ca_find_open_mem: "ca_find_open i s = Some r \<Longrightarrow> r \<in> set s"
  by (auto simp: ca_find_open_def find_Some_iff)

lemma ca_find_open_status:
  "ca_find_open i s = Some r \<Longrightarrow> ca_relationshipStatus r = pending \<or> ca_relationshipStatus r = proposed"
  by (auto simp: ca_find_open_def find_Some_iff)

lemma ca_save_existing:
  assumes "r \<in> set s" and "relationshipId r = i" and "relationshipId d = i" and "ca_save s d = Inr s'"
  shows "s' = map (\<lambda>x. if relationshipId x = i then d else x) s"
  using assms by (auto simp: ca_save_def list_ex_iff split: if_splits)

lemma ca_findById_replaced:
  assumes "r \<in> set s" and "relationshipId r = i" and "relationshipId d = i"
  shows "ca_findById i (map (\<lambda>x. if relationshipId x = i then d else x) s) = Some d"
  using assms unfolding ca_findById_def by (induction s) auto

lemma ca_findById_open:
  "ca_findById j t = Some r \<Longrightarrow> ca_relationshipStatus r = pending \<or> ca_relationshipStatus r = proposed \<Longrightarrow>
   ca_find_open j t = Some r"
  unfolding ca_findById_def ca_find_open_def
  by (induction t) (auto split: if_splits)

lemma put_accept_store:
  assumes "put_accept now s u p = (res, s')"
  shows "s' = s \<or> (\<exists>i c d. p = Some i \<and> findById i s = Some c \<and>
            relationshipStatus c \<in> set acceptableStatuses \<and> connectionId d = i \<and>
            s' = map (\<lambda>x. if connectionId x = i then d else x) s)"
proof (cases p)
  case None
  with assms show ?thesis by (simp add: put_accept_def)
next
  case (Some i)
  show ?thesis
  proof (cases "findById i s")
    case None
    with assms Some show ?thesis by (simp add: put_accept_def)
  next
    case (Some c)
    let ?d = "c\<lparr>relationshipStatus := active, startDate := Some now\<rparr>"
    have idd: "connectionId ?d = i" using findById_id[OF Some] by simp
    show ?thesis
    proof (cases "save s ?d")
      case (Inl e)
      with assms \<open>p = Some i\<close> Some show ?thesis
        by (auto simp: put_accept_def Let_def split: if_splits)
    next
      case (Inr s2)
      from assms \<open>p = Some i\<close> Some Inr
      have "s' = s \<or> (relationshipStatus c \<in> set acceptableStatuses \<and> s' = s2)"
        by (auto simp: put_accept_def Let_def split: if_splits)
      then show ?thesis
      proof
        assume "s' = s" then show ?thesis by simp
      next
        assume "relationshipStatus c \<in> set acceptableStatuses \<and> s' = s2"
        with save_existing[OF Some idd Inr] \<open>p = Some i\<close> Some idd show ?thesis
          by (intro disjI2 exI[of _ i] exI[of _ c] exI[of _ ?d]) simp
      qed
    qed
  qed
qed

lemma put_reject_store:
  assumes "put_reject s u p msg = (res, s')"
  shows "s' = s \<or> (\<exists>i c d. p = Some i \<and> findById i s = Some c \<and>
            relationshipStatus d = rejected \<and> connectionId d = i \<and>
            s' = map (\<lambda>x. if connectionId x = i then d else x) s)"
proof (cases p)
  case None
  with assms show ?thesis by (simp add: put_reject_def)
next
  case (Some i)
  show ?thesis
  proof (cases "findById i s")
    case None
    with assms Some show ?thesis by (simp add: put_reject_def)
  next
    case (Some c)
    let ?d = "c\<lparr>relationshipStatus := rejected, message := (if falsy msg then message c else msg)\<rparr>"
    have idd: "connectionId ?d = i" using findById_id[OF Some] by simp
    show ?thesis
    proof (cases "save s ?d")
      case (Inl e)
      with assms \<open>p = Some i\<close> Some show ?thesis
        by (auto simp: put_reject_def Let_def split: if_splits)
    next
      case (Inr s2)
      from assms \<open>p = Some i\<close> Some Inr
      have "s' = s \<or> s' = s2"
        by (auto simp: put_reject_def Let_def split: if_splits)
      then show ?thesis
      proof
        assume "s' = s" then show ?thesis by simp
      next
        assume "s' = s2"
        with save_existing[OF Some idd Inr] \<open>p = Some i\<close> Some idd show ?thesis
          by (intro disjI2 exI[of _ i] exI[of _ c] exI[of _ ?d]) simp
      qed
    qed
  qed
qed

lemma ca_unique_id:
  assumes "distinct (map relationshipId t)" and "x \<in> set t" and "y \<in> set t"
    and "relationshipId x = relationshipId y"
  shows "x = y"
  using assms by (auto simp: distinct_map dest: inj_onD)

lemma ca_findById_mem: "ca_findById j t = Some r \<Longrightarrow> r \<in> set t \<and> relationshipId r = j"
  by (auto simp: ca_findById_def find_Some_iff)

lemma ca_settle_store:
  assumes "ca_find_open i t = Some r" and "relationshipId d = i" and "ca_save t d = Inr t'"
  shows "t' = map (\<lambda>x. if relationshipId x = i then d else x) t"
  by (rule ca_save_existing[OF ca_find_open_mem[OF assms(1)] ca_find_open_id[OF assms(1)] assms(2,3)])

lemma ca_put_accept_store:
  assumes "ca_put_accept now t v q = (res, t')"
  shows "t' = t \<or> (\<exists>i r d. q = Some i \<and> ca_find_open i t = Some r \<and> relationshipId d = i \<and>
            t' = map (\<lambda>x. if relationshipId x = i then d else x) t)"
proof (cases q)
  case None
  with assms show ?thesis by (simp add: ca_put_accept_def)
next
  case (Some i)
  show ?thesis
  proof (cases "ca_find_open i t")
    case None
    with assms Some show ?thesis by (simp add: ca_put_accept_def)
  next
    case (Some r)
    let ?d = "r\<lparr>ca_relationshipStatus := active, ca_startDate := Some now\<rparr>"
    have idd: "relationshipId ?d = i" using ca_find_open_id[OF Some] by simp
    show ?thesis
    proof (cases "ca_save t ?d")
      case (Inl e)
      with assms \<open>q = Some i\<close> Some show ?thesis
        by (auto simp: ca_put_accept_def Let_def split: if_splits)
    next
      case (Inr t2)
      from assms \<open>q = Some i\<close> Some Inr
      have "t' = t \<or> t' = t2"
        by (auto simp: ca_put_accept_def Let_def split: if_splits)
      then show ?thesis
      proof
        assume "t' = t" then show ?thesis by simp
      next
        assume "t' = t2"
        with ca_settle_store[OF Some idd Inr] \<open>q = Some i\<close> Some idd show ?thesis
          by (intro disjI2 exI[of _ i] exI[of _ r] exI[of _ ?d]) simp
      qed
    qed
  qed
qed

lemma ca_put_reject_store:
  assumes "ca_put_reject now t v q msg = (res, t')"
  shows "t' = t \<or> (\<exists>i r d. q = Some i \<and> ca_find_open i t = Some r \<and> relationshipId d = i \<and>
            t' = map (\<lambda>x. if relationshipId x = i then d else x) t)"
proof (cases q)
  case None
  with assms show ?thesis by (simp add: ca_put_reject_def)
next
  case (Some i)
  show ?thesis
  proof (cases "ca_find_open i t")
    case None
    with assms Some show ?thesis by (simp add: ca_put_reject_def)
  next
    case (Some r)
    let ?d = "r\<lparr>ca_relationshipStatus := inactive, ca_endDate := Some now,
                 ca_message := (if falsy msg then ca_message r else msg)\<rparr>"
    have idd: "relationshipId ?d = i" using ca_find_open_id[OF Some] by simp
    show ?thesis
    proof (cases "ca_save t ?d")
      case (Inl e)
      with assms \<open>q = Some i\<close> Some show ?thesis
        by (auto simp: ca_put_reject_def Let_def split: if_splits)
    next
      case (Inr t2)
      from assms \<open>q = Some i\<close> Some Inr
      have "t' = t \<or> t' = t2"
        by (auto simp: ca_put_reject_def Let_def split: if_splits)
      then show ?thesis
      proof
        assume "t' = t" then show ?thesis by simp
      next
        assume "t' = t2"
        with ca_settle_store[OF Some idd Inr] \<open>q = Some i\<close> Some idd show ?thesis
          by (intro disjI2 exI[of _ i] exI[of _ r] exI[of _ ?d]) simp
      qed
    qed
  qed
qed

lemma map_replace_ids:
  "f d = i \<Longrightarrow> map f (map (\<lambda>x. if f x = i then d else x) xs) = map f xs"
  by (induction xs) auto

lemma ca_settle_keeps_ids:
  assumes "t' = t \<or> (\<exists>i r d. q = Some i \<and> ca_find_open i t = Some r \<and> relationshipId d = i \<and>
            t' = map (\<lambda>x. if relationshipId x = i then d else x) t)"
  shows "map relationshipId t' = map relationshipId t"
  using assms by (auto simp: map_replace_ids)

lemma rejected_kept_conn:
  assumes f: "findById i s = Some c" and rj: "relationshipStatus c = rejected"
    and st: "s' = s \<or> (\<exists>k c2 d. p = Some k \<and> findById k s = Some c2 \<and>
            (relationshipStatus c2 \<in> set acceptableStatuses \<or> relationshipStatus d = rejected) \<and>
            connectionId d = k \<and> s' = map (\<lambda>x. if connectionId x = k then d else x) s)"
  shows "\<exists>c'. findById i s' = Some c' \<and> relationshipStatus c' = rejected"
  using st
proof
  assume "s' = s"
  with f rj show ?thesis by simp
next
  assume "\<exists>k c2 d. p = Some k \<and> findById k s = Some c2 \<and>
            (relationshipStatus c2 \<in> set acceptableStatuses \<or> relationshipStatus d = rejected) \<and>
            connectionId d = k \<and> s' = map (\<lambda>x. if connectionId x = k then d else x) s"
  then obtain k c2 d where k: "findById k s = Some c2"
    and alt: "relationshipStatus c2 \<in> set acceptableStatuses \<or> relationshipStatus d = rejected"
    and idd: "connectionId d = k"
    and s': "s' = map (\<lambda>x. if connectionId x = k then d else x) s"
    by blast
  show ?thesis
  proof (cases "k = i")
    case True
    with k f have "c2 = c" by simp
    with alt rj have dr: "relationshipStatus d = rejected"
      by (auto simp: acceptableStatuses_def)
    from True idd s' have s'': "s' = map (\<lambda>x. if connectionId x = i then d else x) s"
      and idi: "connectionId d = i" by simp_all
    have "findById i s' = Some d"
      unfolding s'' findById_def by (rule find_map_replace[OF f[unfolded findById_def] idi])
    with dr show ?thesis by simp
  next
    case False
    then have "findById i s' = findById i s"
      unfolding s' findById_def using idd by (intro find_map_replace_other) simp_all
    with f rj show ?thesis by simp
  qed
qed

lemma rejected_kept_ca:
  assumes d: "distinct (map relationshipId t)"
    and f: "ca_findById j t = Some r" and rj: "ca_relationshipStatus r = rejected"
    and st: "t' = t \<or> (\<exists>i r2 d. q = Some i \<and> ca_find_open i t = Some r2 \<and> relationshipId d = i \<and>
            t' = map (\<lambda>x. if relationshipId x = i then d else x) t)"
  shows "ca_findById j t' = Some r"
  using st
proof
  assume "t' = t"
  with f show ?thesis by simp
next
  assume "\<exists>i r2 d. q = Some i \<and> ca_find_open i t = Some r2 \<and> relationshipId d = i \<and>
            t' = map (\<lambda>x. if relationshipId x = i then d else x) t"
  then obtain i r2 d where o: "ca_find_open i t = Some r2" and idd: "relationshipId d = i"
    and t': "t' = map (\<lambda>x. if relationshipId x = i then d else x) t"
    by blast
  have "i \<noteq> j"
  proof
    assume "i = j"
    with ca_find_open_mem[OF o] ca_find_open_id[OF o] ca_findById_mem[OF f] d
    have "r2 = r" by (intro ca_unique_id[of t]) simp_all
    with ca_find_open_status[OF o] rj show False by simp
  qed
  then have "ca_findById j t' = ca_findById j t"
    unfolding t' ca_findById_def using idd by (intro find_map_replace_other) simp_all
  with f show ?thesis by simp
qed

lemma fold_max_ge: "x \<in> set xs \<Longrightarrow> x \<le> fold max xs (a::nat)"
proof -
  assume "x \<in> set xs"
  then have "x \<le> Max (set (a # xs))" by (intro Max_ge) simp_all
  then show ?thesis by (simp only: Max.set_eq_fold)
qed

lemma new_id_fresh: "c \<in> set s \<Longrightarrow> connectionId c \<noteq> new_id s"
proof
  assume m: "c \<in> set s" and e: "connectionId c = new_id s"
  from m have "connectionId c \<in> set (map connectionId s)" by simp
  from fold_max_ge[OF this, of 0] e show False
    by (simp add: new_id_def)
qed

lemma ca_new_id_fresh: "r \<in> set t \<Longrightarrow> relationshipId r \<noteq> ca_new_id t"
proof
  assume m: "r \<in> set t" and e: "relationshipId r = ca_new_id t"
  from m have "relationshipId r \<in> set (map relationshipId t)" by simp
  from fold_max_ge[OF this, of 0] e show False
    by (simp add: ca_new_id_def)
qed

lemma save_new:
  assumes "save s d = Inr s'" and "connectionId d = new_id s"
  shows "s' = s @ [d]"
  using assms new_id_fresh[of _ s] by (auto simp: save_def list_ex_iff split: if_splits)

lemma ca_save_new:
  assumes "ca_save t d = Inr t'" and "relationshipId d = ca_new_id t"
  shows "t' = t @ [d]"
  using assms ca_new_id_fresh[of _ t] by (auto simp: ca_save_def list_ex_iff split: if_splits)

lemma validate_connection_keeps_status:
  "validateConnectionRelationship body = Some b \<Longrightarrow> b_relationshipStatus b = b_relationshipStatus body"
  by (auto simp: validateConnectionRelationship_def split: option.splits if_splits prod.splits)

lemma validate_connection_status_ok:
  "validateConnectionRelationship body = Some b \<Longrightarrow> optional_status_ok (b_relationshipStatus body)"
  by (auto simp: validateConnectionRelationship_def split: option.splits if_splits prod.splits)

lemma validate_career_agent_keeps_status:
  "validateCareerAgentRelationship body = Some b \<Longrightarrow> cb_relationshipStatus b = cb_relationshipStatus body"
  by (auto simp: validateCareerAgentRelationship_def split: option.splits if_splits prod.splits)

lemma post_connection_created:
  assumes "post_connection dir now s body = (Inr d, s')"
  shows "\<exists>b. validateConnectionRelationship body = Some b \<and> s' = s @ [d] \<and>
           connectionId d = new_id s \<and> startDate d = Some now \<and> endDate d = None \<and>
           requestorUserId d = b_requestorUserId b \<and> recipientUserId d = b_recipientUserId b \<and>
           parse_status (case b_relationshipStatus b of None \<Rightarrow> ''pending'' | Some st \<Rightarrow> st)
             = Some (relationshipStatus d)"
proof -
  from assms obtain b where v: "validateConnectionRelationship body = Some b"
    by (cases "validateConnectionRelationship body") (auto simp: post_connection_def)
  from assms v obtain ty where ty: "parse_type (case b_connectionType b of None \<Rightarrow> [] | Some t \<Rightarrow> t) = Some ty"
    by (cases "parse_type (case b_connectionType b of None \<Rightarrow> [] | Some t \<Rightarrow> t)")
       (auto simp: post_connection_def)
  from assms v ty obtain st where
    st: "parse_status (case b_relationshipStatus b of None \<Rightarrow> ''pending'' | Some st \<Rightarrow> st) = Some st"
    by (cases "parse_status (case b_relationshipStatus b of None \<Rightarrow> ''pending'' | Some st \<Rightarrow> st)")
       (auto simp: post_connection_def split: if_splits)
  let ?d = "\<lparr> connectionId = new_id s,
              careerAgentId = (if ty = careerAgent then b_careerAgentId b else None),
              candidateId = (if ty = careerAgent then b_candidateId b else None),
              requestorUserId = b_requestorUserId b,
              recipientUserId = b_recipientUserId b,
              connectionType = ty,
              relationshipStatus = st,
              startDate = Some now,
              endDate = None,
              message = b_message b \<rparr>"
  from assms v ty st have sv: "save s ?d = Inr s'" and d: "d = ?d"
    by (auto simp: post_connection_def Let_def split: if_splits sum.splits save_error.splits)
  from save_new[OF sv] have "s' = s @ [?d]" by simp
  with v d st show ?thesis by (intro exI[of _ b]) simp
qed

lemma ca_post_created:
  assumes "ca_post dir now t body = (Inr r, t')"
  shows "\<exists>b. validateCareerAgentRelationship body = Some b \<and> t' = t @ [r] \<and>
           relationshipId r = ca_new_id t \<and> ca_startDate r = Some now \<and> ca_endDate r = None \<and>
           cb_careerAgentId b = Some (ca_careerAgentId r) \<and>
           cb_candidateId b = Some (ca_candidateId r) \<and>
           parse_status (if falsy (cb_relationshipStatus b) then ''active''
                         else (case cb_relationshipStatus b of None \<Rightarrow> [] | Some x \<Rightarrow> x))
             = Some (ca_relationshipStatus r)"
proof -
  from assms obtain b where v: "validateCareerAgentRelationship body = Some b"
    by (cases "validateCareerAgentRelationship body") (auto simp: ca_post_def)
  from assms v obtain agent cand where ids: "cb_careerAgentId b = Some agent" "cb_candidateId b = Some cand"
    by (cases "cb_careerAgentId b"; cases "cb_candidateId b") (auto simp: ca_post_def)
  from assms v ids obtain st where
    st: "parse_status (if falsy (cb_relationshipStatus b) then ''active''
                       else (case cb_relationshipStatus b of None \<Rightarrow> [] | Some x \<Rightarrow> x)) = Some st"
    by (cases "parse_status (if falsy (cb_relationshipStatus b) then ''active''
                       else (case cb_relationshipStatus b of None \<Rightarrow> [] | Some x \<Rightarrow> x))")
       (auto simp: ca_post_def split: if_splits)
  let ?d = "\<lparr> relationshipId = ca_new_id t,
              ca_careerAgentId = agent,
              ca_candidateId = cand,
              ca_relationshipStatus = st,
              ca_startDate = Some now,
              ca_endDate = None,
              ca_message = (if falsy (cb_message b) then Some [] else cb_message b) \<rparr>"
  from assms v ids st have sv: "ca_save t ?d = Inr t'" and d: "r = ?d"
    by (auto simp: ca_post_def Let_def split: if_splits sum.splits save_error.splits)
  from ca_save_new[OF sv] have "t' = t @ [?d]" by simp
  with v d st ids show ?thesis by (intro exI[of _ b]) simp
qed










lemma ca_exclusive_iff:
  "ca_exclusive t = (\<forall>x\<in>set t. \<forall>y\<in>set t.
      ca_relationshipStatus x = active \<and> ca_relationshipStatus y = active \<and>
      ca_candidateId x = ca_candidateId y \<longrightarrow> relationshipId x = relationshipId y)"
  by (auto simp: ca_exclusive_def list_all_iff split: if_splits)

lemma exclusive_iff:
  "exclusive s = (\<forall>x\<in>set s. \<forall>y\<in>set s.
      in_active_index x \<and> in_active_index y \<and> candidateId x = candidateId y
      \<longrightarrow> connectionId x = connectionId y)"
  by (auto simp: exclusive_def list_all_iff split: if_splits)

text \<open>
  The unique index does keep a collection exclusive under accept: a successful accept of
  either route leaves at most one active career-agent relationship per candidate.
\<close>

lemma ca_accept_keeps_exclusive:
  assumes ex: "ca_exclusive t" and a: "ca_put_accept now t u p = (res, t')"
  shows "ca_exclusive t'"
proof (cases "t' = t")
  case True
  with ex show ?thesis by simp
next
  case False
  from a False obtain i where p: "p = Some i"
    by (cases p) (auto simp: ca_put_accept_def)
  with a False obtain r where f: "ca_find_open i t = Some r"
    by (cases "ca_find_open i t") (auto simp: ca_put_accept_def)
  let ?d = "r\<lparr>ca_relationshipStatus := active, ca_startDate := Some now\<rparr>"
  from a p f False have sv: "ca_save t ?d = Inr t'"
    by (auto simp: ca_put_accept_def Let_def split: if_splits sum.splits)
  have idd: "relationshipId ?d = i" using ca_find_open_id[OF f] by simp
  have t': "t' = map (\<lambda>x. if relationshipId x = i then ?d else x) t"
    by (rule ca_settle_store[OF f idd sv])
  from sv have nd: "\<not> ca_duplicate_key t ?d"
    by (auto simp: ca_save_def split: if_splits)
  have old: "x \<in> set t' \<Longrightarrow> x = ?d \<or> (x \<in> set t \<and> relationshipId x \<noteq> i)" for x
    unfolding t' by auto
  have clash: "x \<in> set t \<Longrightarrow> relationshipId x \<noteq> i \<Longrightarrow> ca_relationshipStatus x = active \<Longrightarrow>
               ca_candidateId x = ca_candidateId ?d \<Longrightarrow> False" for x
    using nd idd by (auto simp: ca_duplicate_key_def list_ex_iff)
  show ?thesis
    unfolding ca_exclusive_iff
  proof (intro ballI impI)
    fix x y
    assume x: "x \<in> set t'" and y: "y \<in> set t'"
      and c: "ca_relationshipStatus x = active \<and> ca_relationshipStatus y = active \<and>
              ca_candidateId x = ca_candidateId y"
    from old[OF x] old[OF y] show "relationshipId x = relationshipId y"
    proof (elim disjE conjE)
      assume "x = ?d" "y = ?d" then show ?thesis by simp
    next
      assume "x = ?d" "y \<in> set t" "relationshipId y \<noteq> i"
      with c clash[of y] show ?thesis by simp
    next
      assume "x \<in> set t" "relationshipId x \<noteq> i" "y = ?d"
      with c clash[of x] show ?thesis by simp
    next
      assume "x \<in> set t" "y \<in> set t"
      with c ex show ?thesis unfolding ca_exclusive_iff by blast
    qed
  qed
qed

lemma accept_keeps_exclusive:
  assumes ex: "exclusive s" and a: "put_accept now s u p = (res, s')"
  shows "exclusive s'"
proof (cases "s' = s")
  case True
  with ex show ?thesis by simp
next
  case False
  from a False obtain i where p: "p = Some i"
    by (cases p) (auto simp: put_accept_def)
  with a False obtain c where f: "findById i s = Some c"
    by (cases "findById i s") (auto simp: put_accept_def)
  let ?d = "c\<lparr>relationshipStatus := active, startDate := Some now\<rparr>"
  from a p f False have sv: "save s ?d = Inr s'"
    by (auto simp: put_accept_def Let_def split: if_splits sum.splits)
  have idd: "connectionId ?d = i" using findById_id[OF f] by simp
  have s': "s' = map (\<lambda>x. if connectionId x = i then ?d else x) s"
    by (rule save_existing[OF f idd sv])
  from sv have nd: "\<not> duplicate_key s ?d"
    by (auto simp: save_def split: if_splits)
  have old: "x \<in> set s' \<Longrightarrow> x = ?d \<or> (x \<in> set s \<and> connectionId x \<noteq> i)" for x
    unfolding s' by auto
  have clash: "x \<in> set s \<Longrightarrow> connectionId x \<noteq> i \<Longrightarrow> in_active_index x \<Longrightarrow>
               in_active_index ?d \<Longrightarrow> candidateId x = candidateId ?d \<Longrightarrow> False" for x
    using nd idd by (auto simp: duplicate_key_def list_ex_iff)
  show ?thesis
    unfolding exclusive_iff
  proof (intro ballI impI)
    fix x y
    assume x: "x \<in> set s'" and y: "y \<in> set s'"
      and c: "in_active_index x \<and> in_active_index y \<and> candidateId x = candidateId y"
    from old[OF x] old[OF y] show "connectionId x = connectionId y"
    proof (elim disjE conjE)
      assume "x = ?d" "y = ?d" then show ?thesis by simp
    next
      assume "x = ?d" "y \<in> set s" "connectionId y \<noteq> i"
      with c clash[of y] show ?thesis by auto
    next
      assume "x \<in> set s" "connectionId x \<noteq> i" "y = ?d"
      with c clash[of x] show ?thesis by auto
    next
      assume "x \<in> set s" "y \<in> set s"
      with c ex show ?thesis unfolding exclusive_iff by blast
    qed
  qed
qed

text \<open>The careerAgent route refuses a relationship of a user with themselves.\<close>

lemma ca_routes_refuse_self_relationship:
  "ca_post_request dir now t u fn (Some u) msg = (Inl SelfRelationship, t)"
  "ca_post_propose dir now t u fn (Some u) msg = (Inl SelfRelationship, t)"
  "cb_careerAgentId body = cb_candidateId body \<Longrightarrow>
     ca_post dir now t body = (Inl ValidationFailed, t) \<or>
     ca_post dir now t body = (Inl SelfRelationship, t)"
  by (auto simp: ca_post_request_def ca_post_propose_def ca_post_def
        validateCareerAgentRelationship_def split: option.splits prod.splits if_splits)

text \<open>The connections route refuses an update by a user who is no party of the connection.\<close>

lemma put_connection_forbidden:
  "findById i s = Some c \<Longrightarrow> Some u \<notin> set (parties c) \<Longrightarrow>
   put_connection s u (Some i) st msg ed = (Inl NotAuthorized, s)"
  by (simp add: put_connection_def parties_def)

text \<open>
  Two behaviours of the connections route that its careerAgent sibling or its own API
  documentation contradict: a connection created without a status is pending, and a reject
  leaves the end date as it was.
\<close>

lemma post_connection_default_status:
  assumes "post_connection dir now s body = (Inr d, s')" and "b_relationshipStatus body = None"
  shows "relationshipStatus d = pending"
proof -
  from post_connection_created[OF assms(1)] obtain b where
    v: "validateConnectionRelationship body = Some b"
    and st: "parse_status (case b_relationshipStatus b of None \<Rightarrow> ''pending'' | Some st \<Rightarrow> st)
               = Some (relationshipStatus d)"
    by blast
  from validate_connection_keeps_status[OF v] assms(2) st show ?thesis
    by (simp add: parse_status_def)
qed

lemma put_reject_keeps_endDate:
  assumes "put_reject s u (Some i) msg = (Inr c', s')"
  shows "\<exists>c. findById i s = Some c \<and> endDate c' = endDate c"
proof -
  from assms obtain c where f: "findById i s = Some c"
    by (cases "findById i s") (auto simp: put_reject_def)
  with assms have "endDate c' = endDate c"
    by (auto simp: put_reject_def Let_def split: if_splits sum.splits)
  with f show ?thesis by simp
qed

text \<open>The defining equations that evaluate a handler on a concrete collection.\<close>

lemmas js_eval = falsy_def profile_exists_def parse_status_def parse_type_def Let_def

lemmas conn_eval = findById_def new_id_def save_def schema_valid_def duplicate_key_def
  in_active_index_def acceptableStatuses_def existing_between_def existing_proposal_def

lemmas ca_eval = ca_findById_def ca_find_open_def ca_new_id_def ca_save_def ca_schema_valid_def
  ca_duplicate_key_def isAuthorized_def existingActiveRelationship_def
  existingPairRelationship_def

section \<open>Verified properties\<close>

text \<open>
  C1. An accept that would give a candidate a second active career agent must fail with
  Conflict. Here agents A1 and A2 both make an offer to candidate K1 while K1 has no agent,
  K1 accepts the offer of A1, and then accepts the offer of A2. Neither accept handler
  looks for an active relationship of the candidate; the unique index of the schema refuses
  the second write, and since the handlers have no branch for the duplicate-key error (the
  create handlers have one, answering 400), the caller is told 500, the infrastructure
  error. The same happens on the connections route.
\<close>

theorem accept_second_agent_internal_error:
  "ca_post_propose [''A1'', ''A2'', ''K1''] 1 [] ''A1'' None (Some ''K1'') (Some ''offer'')
     = (Inr ex_proposal, [ex_proposal]) \<and>
   ca_post_propose [''A1'', ''A2'', ''K1''] 2 [ex_proposal] ''A2'' None (Some ''K1'') (Some ''offer'')
     = (Inr ex_proposal_A2, [ex_proposal, ex_proposal_A2]) \<and>
   ca_put_accept 3 [ex_proposal, ex_proposal_A2] ''K1'' (Some 1)
     = (Inr (ex_proposal\<lparr>ca_relationshipStatus := active, ca_startDate := Some 3\<rparr>),
        [ex_proposal\<lparr>ca_relationshipStatus := active, ca_startDate := Some 3\<rparr>, ex_proposal_A2]) \<and>
   ca_put_accept 4 [ex_proposal\<lparr>ca_relationshipStatus := active, ca_startDate := Some 3\<rparr>, ex_proposal_A2]
       ''K1'' (Some 2)
     = (Inl InternalServerError,
        [ex_proposal\<lparr>ca_relationshipStatus := active, ca_startDate := Some 3\<rparr>, ex_proposal_A2]) \<and>
   put_accept 4 [ex_active_connection, ex_second_proposal] ''K1'' (Some 2)
     = (Inl InternalServerError, [ex_active_connection, ex_second_proposal]) \<and>
   kind_of InternalServerError = Infrastructure \<and> http_status InternalServerError = 500"
  by (simp add: ca_post_propose_def ca_put_accept_def put_accept_def ca_eval conn_eval js_eval
      ex_proposal_def ex_proposal_A2_def ex_active_connection_def ex_second_proposal_def)




text \<open>
  C3. A create, request or propose call whose two parties are the same user must fail with
  ValidationError. The careerAgent route compares the two ids; the connections route has no
  such comparison in any of its three handlers: user U1, who has a profile, sends a friend
  request to U1, proposes to be the career agent of U1, and creates an active friend
  connection from U1 to U1, and each call stores the record.
\<close>

theorem connections_store_self_relationship:
  "post_request [''U1''] 1 [] ''U1'' (Some ''U1'') (Some ''friend'') None
     = (Inr ex_self_friend, [ex_self_friend]) \<and>
   requestorUserId ex_self_friend = recipientUserId ex_self_friend \<and>
   post_propose [''U1''] 1 [] ''U1'' (Some ''U1'') None
     = (Inr ex_self_agent, [ex_self_agent]) \<and>
   careerAgentId ex_self_agent = candidateId ex_self_agent \<and>
   post_connection [''U1''] 1 [] ex_self_friend_body
     = (Inr (ex_self_friend\<lparr>relationshipStatus := active\<rparr>),
        [ex_self_friend\<lparr>relationshipStatus := active\<rparr>])"
  by (simp add: post_request_def post_propose_def post_connection_def
      validateConnectionRelationship_def optional_message_def optional_status_ok_def
      required_trimmed_def trim_def is_space_def conn_eval js_eval
      ex_self_friend_def ex_self_agent_def ex_self_friend_body_def)

text \<open>
  C4, as stated: a successful reject leaves the record with status Rejected and the end date
  set to the current time. Neither route does both. The connections handler writes the
  status rejected and never touches \<open>endDate\<close> (it does not read the clock at all); the
  careerAgent handler stamps \<open>endDate\<close> and writes the status inactive.
\<close>

theorem reject_status_and_endDate_counterexample:
  "put_reject [ex_friend_request] ''U2'' (Some 1) (Some ''no'')
     = (Inr (ex_friend_request\<lparr>relationshipStatus := rejected, message := Some ''no''\<rparr>),
        [ex_friend_request\<lparr>relationshipStatus := rejected, message := Some ''no''\<rparr>]) \<and>
   endDate (ex_friend_request\<lparr>relationshipStatus := rejected, message := Some ''no''\<rparr>) = None \<and>
   ca_put_reject 5 [ex_pending_request] ''A1'' (Some 1) None
     = (Inr (ex_pending_request\<lparr>ca_relationshipStatus := inactive, ca_endDate := Some 5\<rparr>),
        [ex_pending_request\<lparr>ca_relationshipStatus := inactive, ca_endDate := Some 5\<rparr>]) \<and>
   ca_relationshipStatus (ex_pending_request\<lparr>ca_relationshipStatus := inactive, ca_endDate := Some 5\<rparr>)
     \<noteq> rejected"
  by (simp add: put_reject_def ca_put_reject_def conn_eval ca_eval js_eval
      ex_friend_request_def ex_pending_request_def)

text \<open>
  C4, amended. After a successful reject on the connections route the stored record has
  status rejected; after a successful reject on the careerAgent route (which settles only a
  pending or proposed relationship) it has status inactive and its end date is the current
  time. On both routes the note is overwritten exactly when a non-empty note is supplied,
  and is otherwise the one the record had.
\<close>

theorem reject_sets_status_and_note:
  "(put_reject s u p msg = (Inr c', s') \<longrightarrow>
      (\<exists>i c. p = Some i \<and> findById i s = Some c \<and> findById i s' = Some c' \<and>
         relationshipStatus c' = rejected \<and>
         message c' = (if falsy msg then message c else msg))) \<and>
   (ca_put_reject now t v q reason = (Inr r', t') \<longrightarrow>
      (\<exists>j r. q = Some j \<and> r \<in> set t \<and> relationshipId r = j \<and>
         (ca_relationshipStatus r = pending \<or> ca_relationshipStatus r = proposed) \<and>
         ca_findById j t' = Some r' \<and>
         ca_relationshipStatus r' = inactive \<and> ca_endDate r' = Some now \<and>
         ca_message r' = (if falsy reason then ca_message r else reason)))"
proof (intro conjI impI)
  assume a: "put_reject s u p msg = (Inr c', s')"
  then obtain i where p: "p = Some i"
    by (cases p) (auto simp: put_reject_def)
  with a obtain c where f: "findById i s = Some c"
    by (cases "findById i s") (auto simp: put_reject_def)
  let ?d = "c\<lparr>relationshipStatus := rejected, message := (if falsy msg then message c else msg)\<rparr>"
  from a p f have sv: "save s ?d = Inr s'" and c': "c' = ?d"
    by (auto simp: put_reject_def Let_def split: if_splits sum.splits)
  have idd: "connectionId ?d = i" using findById_id[OF f] by simp
  have "findById i s' = Some ?d"
    by (rule findById_saved[OF f idd sv])
  with p f c' show "\<exists>i c. p = Some i \<and> findById i s = Some c \<and> findById i s' = Some c' \<and>
         relationshipStatus c' = rejected \<and>
         message c' = (if falsy msg then message c else msg)"
    by (intro exI[of _ i] exI[of _ c]) simp
next
  assume a: "ca_put_reject now t v q reason = (Inr r', t')"
  then obtain j where q: "q = Some j"
    by (cases q) (auto simp: ca_put_reject_def)
  with a obtain r where f: "ca_find_open j t = Some r"
    by (cases "ca_find_open j t") (auto simp: ca_put_reject_def)
  let ?d = "r\<lparr>ca_relationshipStatus := inactive, ca_endDate := Some now,
               ca_message := (if falsy reason then ca_message r else reason)\<rparr>"
  from a q f have sv: "ca_save t ?d = Inr t'" and r': "r' = ?d"
    by (auto simp: ca_put_reject_def Let_def split: if_splits sum.splits)
  note m = ca_find_open_mem[OF f] and ri = ca_find_open_id[OF f]
  have idd: "relationshipId ?d = j" using ri by simp
  have t': "t' = map (\<lambda>x. if relationshipId x = j then ?d else x) t"
    by (rule ca_save_existing[OF m ri idd sv])
  have "ca_findById j t' = Some ?d"
    unfolding t' by (rule ca_findById_replaced[OF m ri idd])
  with q m ri r' ca_find_open_status[OF f]
  show "\<exists>j r. q = Some j \<and> r \<in> set t \<and> relationshipId r = j \<and>
         (ca_relationshipStatus r = pending \<or> ca_relationshipStatus r = proposed) \<and>
         ca_findById j t' = Some r' \<and>
         ca_relationshipStatus r' = inactive \<and> ca_endDate r' = Some now \<and>
         ca_message r' = (if falsy reason then ca_message r else reason)"
    by (intro exI[of _ j] exI[of _ r]) simp
qed

theorem reject_sets_status_and_note_witness:
  "put_reject [ex_friend_request] ''U2'' (Some 1) (Some ''no'')
     = (Inr (ex_friend_request\<lparr>relationshipStatus := rejected, message := Some ''no''\<rparr>),
        [ex_friend_request\<lparr>relationshipStatus := rejected, message := Some ''no''\<rparr>]) \<and>
   ca_put_reject 5 [ex_pending_request] ''A1'' (Some 1) None
     = (Inr (ex_pending_request\<lparr>ca_relationshipStatus := inactive, ca_endDate := Some 5\<rparr>),
        [ex_pending_request\<lparr>ca_relationshipStatus := inactive, ca_endDate := Some 5\<rparr>]) \<and>
   (\<exists>c. findById 1 [ex_friend_request] = Some c \<and>
      message (ex_friend_request\<lparr>relationshipStatus := rejected, message := Some ''no''\<rparr>)
        = (if falsy (Some ''no'') then message c else Some ''no'')) \<and>
   (\<exists>r. r \<in> set [ex_pending_request] \<and>
      ca_message (ex_pending_request\<lparr>ca_relationshipStatus := inactive, ca_endDate := Some 5\<rparr>)
        = (if falsy None then ca_message r else None))"
proof -
  let ?A = "ex_friend_request\<lparr>relationshipStatus := rejected, message := Some ''no''\<rparr>"
  let ?B = "ex_pending_request\<lparr>ca_relationshipStatus := inactive, ca_endDate := Some 5\<rparr>"
  have h1: "put_reject [ex_friend_request] ''U2'' (Some 1) (Some ''no'') = (Inr ?A, [?A])"
    by (simp add: put_reject_def conn_eval js_eval ex_friend_request_def)
  have h2: "ca_put_reject 5 [ex_pending_request] ''A1'' (Some 1) None = (Inr ?B, [?B])"
    by (simp add: ca_put_reject_def ca_eval js_eval ex_pending_request_def)
  note w1 = reject_sets_status_and_note
              [of "[ex_friend_request]" "''U2''" "Some 1" "Some ''no''" ?A "[?A]",
               THEN conjunct1, rule_format]
  note w2 = reject_sets_status_and_note
              [of _ _ _ _ _ _ 5 "[ex_pending_request]" "''A1''" "Some 1" None ?B "[?B]",
               THEN conjunct2, rule_format]
  from w1[OF h1] obtain i c where
    "Some (1::nat) = Some i" "findById i [ex_friend_request] = Some c"
    "message ?A = (if falsy (Some ''no'') then message c else Some ''no'')"
    by blast
  then have c1: "\<exists>c. findById 1 [ex_friend_request] = Some c \<and>
      message ?A = (if falsy (Some ''no'') then message c else Some ''no'')"
    by auto
  from w2[OF h2] obtain r where
    "r \<in> set [ex_pending_request]" "ca_message ?B = (if falsy None then ca_message r else None)"
    by blast
  then have c2: "\<exists>r. r \<in> set [ex_pending_request] \<and>
      ca_message ?B = (if falsy None then ca_message r else None)"
    by blast
  from h1 h2 c1 c2 show ?thesis by (intro conjI)
qed

text \<open>
  C5, as stated: a record created directly has a start date if and only if its status is
  Active. Both schemas give \<open>startDate\<close> the default \<^verbatim>\<open>Date.now\<close>, and neither create handler
  sets or clears it: a relationship created with the status pending (careerAgent route) or
  proposed (connections route) has the creation time as its start date.
\<close>

theorem created_pending_has_startDate_counterexample:
  "ca_post [''A1'', ''K1''] 7 [] ex_created_pending_body
     = (Inr ex_created_pending, [ex_created_pending]) \<and>
   ca_relationshipStatus ex_created_pending = pending \<and>
   ca_startDate ex_created_pending = Some 7 \<and>
   post_connection [''A1'', ''K1''] 7 [] ex_created_connection_body
     = (Inr ex_created_connection, [ex_created_connection]) \<and>
   relationshipStatus ex_created_connection = proposed \<and>
   startDate ex_created_connection = Some 7"
  by (simp add: ca_post_def validateCareerAgentRelationship_def post_connection_def
      validateConnectionRelationship_def optional_message_def
      optional_status_ok_def required_trimmed_def trim_def is_space_def
      ca_findById_def ca_new_id_def ca_save_def ca_schema_valid_def ca_duplicate_key_def
      existingActiveRelationship_def existingPairRelationship_def conn_eval js_eval
      ex_created_pending_def ex_created_pending_body_def
      ex_created_connection_def ex_created_connection_body_def)

text \<open>
  C5, amended. Every successful direct creation appends one record to the collection whose
  status is the valid status the caller supplied, and whose start date is the creation
  time whatever that status is. When the caller supplies no status, the record created on
  the careerAgent route is active.
\<close>

theorem createDirect_status_and_startDate:
  "(post_connection dir now s body = (Inr d, s') \<longrightarrow>
      s' = s @ [d] \<and> startDate d = Some now \<and>
      (case b_relationshipStatus body of None \<Rightarrow> True
       | Some x \<Rightarrow> parse_status x = Some (relationshipStatus d))) \<and>
   (ca_post dir now t cbody = (Inr r, t') \<longrightarrow>
      t' = t @ [r] \<and> ca_startDate r = Some now \<and>
      (case cb_relationshipStatus cbody of None \<Rightarrow> ca_relationshipStatus r = active
       | Some x \<Rightarrow> parse_status x = Some (ca_relationshipStatus r)))"
proof (intro conjI impI)
  assume a: "post_connection dir now s body = (Inr d, s')"
  from post_connection_created[OF a] obtain b where
    v: "validateConnectionRelationship body = Some b" and s': "s' = s @ [d]"
    and sd: "startDate d = Some now"
    and st: "parse_status (case b_relationshipStatus b of None \<Rightarrow> ''pending'' | Some st \<Rightarrow> st)
               = Some (relationshipStatus d)"
    by blast
  from s' show "s' = s @ [d]" .
  from sd show "startDate d = Some now" .
  from st validate_connection_keeps_status[OF v]
  show "case b_relationshipStatus body of None \<Rightarrow> True
        | Some x \<Rightarrow> parse_status x = Some (relationshipStatus d)"
    by (simp split: option.splits)
next
  assume a: "ca_post dir now t cbody = (Inr r, t')"
  from ca_post_created[OF a] obtain b where
    v: "validateCareerAgentRelationship cbody = Some b" and t': "t' = t @ [r]"
    and sd: "ca_startDate r = Some now"
    and st: "parse_status (if falsy (cb_relationshipStatus b) then ''active''
                         else (case cb_relationshipStatus b of None \<Rightarrow> [] | Some x \<Rightarrow> x))
               = Some (ca_relationshipStatus r)"
    by blast
  from t' show "t' = t @ [r]" .
  from sd show "ca_startDate r = Some now" .
  have k: "cb_relationshipStatus b = cb_relationshipStatus cbody"
    by (rule validate_career_agent_keeps_status[OF v])
  from v have ok: "optional_status_ok (cb_relationshipStatus cbody)"
    by (auto simp: validateCareerAgentRelationship_def split: option.splits if_splits prod.splits)
  show "case cb_relationshipStatus cbody of None \<Rightarrow> ca_relationshipStatus r = active
        | Some x \<Rightarrow> parse_status x = Some (ca_relationshipStatus r)"
  proof (cases "cb_relationshipStatus cbody")
    case None
    with st k show ?thesis by (simp add: falsy_def parse_status_def)
  next
    case (Some x)
    with ok have "x \<noteq> []" by (auto simp: optional_status_ok_def parse_status_def)
    with st k Some show ?thesis by (simp add: falsy_def)
  qed
qed

theorem createDirect_status_and_startDate_witness:
  "post_connection [''A1'', ''K1''] 7 [] ex_created_connection_body
     = (Inr ex_created_connection, [ex_created_connection]) \<and>
   ca_post [''A1'', ''K1''] 7 [] ex_created_pending_body
     = (Inr ex_created_pending, [ex_created_pending]) \<and>
   startDate ex_created_connection = Some 7 \<and>
   (case b_relationshipStatus ex_created_connection_body of None \<Rightarrow> True
    | Some x \<Rightarrow> parse_status x = Some (relationshipStatus ex_created_connection)) \<and>
   ca_startDate ex_created_pending = Some 7 \<and>
   (case cb_relationshipStatus ex_created_pending_body of
      None \<Rightarrow> ca_relationshipStatus ex_created_pending = active
    | Some x \<Rightarrow> parse_status x = Some (ca_relationshipStatus ex_created_pending))"
proof -
  have h1: "post_connection [''A1'', ''K1''] 7 [] ex_created_connection_body
     = (Inr ex_created_connection, [ex_created_connection])"
    by (simp add: post_connection_def validateConnectionRelationship_def optional_message_def
      optional_status_ok_def required_trimmed_def trim_def is_space_def conn_eval js_eval
      ex_created_connection_def ex_created_connection_body_def)
  have h2: "ca_post [''A1'', ''K1''] 7 [] ex_created_pending_body
     = (Inr ex_created_pending, [ex_created_pending])"
    by (simp add: ca_post_def validateCareerAgentRelationship_def optional_message_def
      optional_status_ok_def required_trimmed_def trim_def is_space_def ca_eval js_eval
      ex_created_pending_def ex_created_pending_body_def)
  note w1 = createDirect_status_and_startDate
              [of "[''A1'', ''K1'']" 7 "[]" ex_created_connection_body ex_created_connection
                  "[ex_created_connection]", THEN conjunct1, rule_format, OF h1]
  note w2 = createDirect_status_and_startDate
              [of "[''A1'', ''K1'']" 7 _ _ _ _ "[]" ex_created_pending_body ex_created_pending
                  "[ex_created_pending]", THEN conjunct2, rule_format, OF h2]
  from h1 h2 w1 w2 show ?thesis by (intro conjI) blast+
qed

text \<open>
  C6, as stated: an accept or reject by anyone but the receiving party is answered Forbidden
  and changes nothing. The connections route authorizes the recipient and also the
  candidate, whoever opened the relationship: a candidate who requested an agent can accept
  the request in the agent's place.
\<close>

theorem accept_by_requesting_candidate_counterexample:
  "post_connection [''A1'', ''K1''] 1 [] ex_candidate_request_body
     = (Inr ex_candidate_request, [ex_candidate_request]) \<and>
   spec_receiving_party ex_candidate_request = Some ''A1'' \<and>
   put_accept 5 [ex_candidate_request] ''K1'' (Some 1)
     = (Inr (ex_candidate_request\<lparr>relationshipStatus := active, startDate := Some 5\<rparr>),
        [ex_candidate_request\<lparr>relationshipStatus := active, startDate := Some 5\<rparr>])"
  by (simp add: post_connection_def validateConnectionRelationship_def optional_message_def
      optional_status_ok_def required_trimmed_def trim_def is_space_def
      put_accept_def spec_receiving_party_def conn_eval js_eval
      ex_candidate_request_def ex_candidate_request_body_def)

text \<open>
  C6, amended. On the connections route an accept or reject by a user who is neither the
  recipient nor the candidate of the connection is answered 403 (Forbidden) and leaves the
  collection as it was. On the careerAgent route the same holds, for a pending or proposed
  relationship, for every user but its receiving party (the agent of a pending request, the
  candidate of a proposal).
\<close>

theorem accept_reject_forbidden_for_others:
  "(findById i s = Some c \<and> recipientUserId c \<noteq> Some u \<and> candidateId c \<noteq> Some u \<longrightarrow>
      put_accept now s u (Some i) = (Inl NotAuthorized, s) \<and>
      put_reject s u (Some i) msg = (Inl NotAuthorized, s)) \<and>
   (ca_findById j t = Some r \<and>
    (ca_relationshipStatus r = pending \<or> ca_relationshipStatus r = proposed) \<and>
    v \<noteq> ca_spec_receiving_party r \<longrightarrow>
      ca_put_accept now t v (Some j) = (Inl NotAuthorized, t) \<and>
      ca_put_reject now t v (Some j) msg = (Inl NotAuthorized, t)) \<and>
   kind_of NotAuthorized = Forbidden"
proof (intro conjI impI)
  assume "findById i s = Some c \<and> recipientUserId c \<noteq> Some u \<and> candidateId c \<noteq> Some u"
  then show "put_accept now s u (Some i) = (Inl NotAuthorized, s)"
    and "put_reject s u (Some i) msg = (Inl NotAuthorized, s)"
    by (simp_all add: put_accept_def put_reject_def)
next
  assume a: "ca_findById j t = Some r \<and>
    (ca_relationshipStatus r = pending \<or> ca_relationshipStatus r = proposed) \<and>
    v \<noteq> ca_spec_receiving_party r"
  then have f: "ca_find_open j t = Some r" by (simp add: ca_findById_open)
  from a have n: "\<not> isAuthorized r v"
    by (auto simp: isAuthorized_def ca_spec_receiving_party_def)
  from f n show "ca_put_accept now t v (Some j) = (Inl NotAuthorized, t)"
    and "ca_put_reject now t v (Some j) msg = (Inl NotAuthorized, t)"
    by (simp_all add: ca_put_accept_def ca_put_reject_def)
qed simp

theorem accept_reject_forbidden_for_others_witness:
  "(findById 1 [ex_friend_request] = Some ex_friend_request \<and>
    recipientUserId ex_friend_request \<noteq> Some ''U3'' \<and> candidateId ex_friend_request \<noteq> Some ''U3'') \<and>
   (ca_findById 1 [ex_pending_request] = Some ex_pending_request \<and>
    (ca_relationshipStatus ex_pending_request = pending \<or> ca_relationshipStatus ex_pending_request = proposed) \<and>
    ''K1'' \<noteq> ca_spec_receiving_party ex_pending_request) \<and>
   put_accept 5 [ex_friend_request] ''U3'' (Some 1) = (Inl NotAuthorized, [ex_friend_request]) \<and>
   put_reject [ex_friend_request] ''U3'' (Some 1) None = (Inl NotAuthorized, [ex_friend_request]) \<and>
   ca_put_accept 5 [ex_pending_request] ''K1'' (Some 1) = (Inl NotAuthorized, [ex_pending_request]) \<and>
   ca_put_reject 5 [ex_pending_request] ''K1'' (Some 1) None = (Inl NotAuthorized, [ex_pending_request])"
proof -
  have h1: "findById 1 [ex_friend_request] = Some ex_friend_request \<and>
    recipientUserId ex_friend_request \<noteq> Some ''U3'' \<and> candidateId ex_friend_request \<noteq> Some ''U3''"
    by (simp add: findById_def ex_friend_request_def)
  have h2: "ca_findById 1 [ex_pending_request] = Some ex_pending_request \<and>
    (ca_relationshipStatus ex_pending_request = pending \<or> ca_relationshipStatus ex_pending_request = proposed) \<and>
    ''K1'' \<noteq> ca_spec_receiving_party ex_pending_request"
    by (simp add: ca_findById_def ca_spec_receiving_party_def ex_pending_request_def)
  note w = accept_reject_forbidden_for_others
             [of 1 "[ex_friend_request]" ex_friend_request "''U3''" 5 None
                 1 "[ex_pending_request]" ex_pending_request "''K1''"]
  from w[THEN conjunct1, rule_format, OF h1] w[THEN conjunct2, THEN conjunct1, rule_format, OF h2] h1 h2
  show ?thesis by (intro conjI) simp_all
qed

text \<open>
  C7, as stated: no accept, reject or update changes the status of a rejected relationship.
  The update handler of the connections route assigns whatever status the body carries,
  whatever the current one: after U2 has rejected the friend request of U1, U1 sets it to
  active.
\<close>

theorem update_reactivates_rejected_counterexample:
  "put_reject [ex_friend_request] ''U2'' (Some 1) None = (Inr ex_rejected_friend, [ex_rejected_friend]) \<and>
   relationshipStatus ex_rejected_friend = rejected \<and>
   put_connection [ex_rejected_friend] ''U1'' (Some 1) (Some ''active'') None None
     = (Inr (ex_rejected_friend\<lparr>relationshipStatus := active\<rparr>),
        [ex_rejected_friend\<lparr>relationshipStatus := active\<rparr>])"
  by (simp add: put_reject_def put_connection_def conn_eval js_eval ex_friend_request_def ex_rejected_friend_def)

text \<open>
  C7, amended. Once a relationship's status is rejected, no accept and no reject changes it
  again, whoever calls and whichever relationship the call names: on the connections route
  the collection still holds a rejected document under that id, and on the careerAgent
  route (whose collection has one document per id, and keeps so under accept and reject) it
  holds the very same document. An accept that names the rejected relationship always fails
  and leaves the collection as it was: it is answered Forbidden or Conflict (403, or 400 for
  the wrong state) on the connections route and NotFound on the careerAgent route, where a
  reject that names it is answered NotFound as well.
\<close>

theorem rejected_stays_rejected_under_accept_and_reject:
  "(findById i s = Some c \<and> relationshipStatus c = rejected \<longrightarrow>
      (\<exists>c'. findById i (snd (put_accept now s u p)) = Some c' \<and> relationshipStatus c' = rejected) \<and>
      (\<exists>c'. findById i (snd (put_reject s u p msg)) = Some c' \<and> relationshipStatus c' = rejected) \<and>
      (\<exists>e. put_accept now s u (Some i) = (Inl e, s) \<and>
           (kind_of e = Forbidden \<or> kind_of e = Conflict))) \<and>
   (distinct (map relationshipId t) \<and> ca_findById j t = Some r \<and> ca_relationshipStatus r = rejected \<longrightarrow>
      ca_findById j (snd (ca_put_accept now t v q)) = Some r \<and>
      ca_findById j (snd (ca_put_reject now t v q msg)) = Some r \<and>
      distinct (map relationshipId (snd (ca_put_accept now t v q))) \<and>
      distinct (map relationshipId (snd (ca_put_reject now t v q msg))) \<and>
      ca_put_accept now t v (Some j) = (Inl RecordNotFound, t) \<and>
      ca_put_reject now t v (Some j) msg = (Inl RecordNotFound, t) \<and>
      kind_of RecordNotFound = NotFound)"
proof (intro conjI impI)
  assume a: "findById i s = Some c \<and> relationshipStatus c = rejected"
  obtain res s' where e: "put_accept now s u p = (res, s')" by (cases "put_accept now s u p")
  from put_accept_store[OF e] have "s' = s \<or> (\<exists>k c2 d. p = Some k \<and> findById k s = Some c2 \<and>
            (relationshipStatus c2 \<in> set acceptableStatuses \<or> relationshipStatus d = rejected) \<and>
            connectionId d = k \<and> s' = map (\<lambda>x. if connectionId x = k then d else x) s)"
    by blast
  from rejected_kept_conn[OF conjunct1[OF a] conjunct2[OF a] this] e
  show "\<exists>c'. findById i (snd (put_accept now s u p)) = Some c' \<and> relationshipStatus c' = rejected"
    by simp
  obtain res2 s2 where e2: "put_reject s u p msg = (res2, s2)" by (cases "put_reject s u p msg")
  from put_reject_store[OF e2] have "s2 = s \<or> (\<exists>k c2 d. p = Some k \<and> findById k s = Some c2 \<and>
            (relationshipStatus c2 \<in> set acceptableStatuses \<or> relationshipStatus d = rejected) \<and>
            connectionId d = k \<and> s2 = map (\<lambda>x. if connectionId x = k then d else x) s)"
    by blast
  from rejected_kept_conn[OF conjunct1[OF a] conjunct2[OF a] this] e2
  show "\<exists>c'. findById i (snd (put_reject s u p msg)) = Some c' \<and> relationshipStatus c' = rejected"
    by simp
  show "\<exists>e. put_accept now s u (Some i) = (Inl e, s) \<and>
           (kind_of e = Forbidden \<or> kind_of e = Conflict)"
  proof (cases "recipientUserId c \<noteq> Some u \<and> candidateId c \<noteq> Some u")
    case True
    with a have "put_accept now s u (Some i) = (Inl NotAuthorized, s)"
      by (simp add: put_accept_def)
    then show ?thesis by simp
  next
    case False
    with a have "put_accept now s u (Some i) = (Inl WrongState, s)"
      by (auto simp: put_accept_def acceptableStatuses_def)
    then show ?thesis by simp
  qed
next
  assume a: "distinct (map relationshipId t) \<and> ca_findById j t = Some r \<and> ca_relationshipStatus r = rejected"
  then have d: "distinct (map relationshipId t)" and f: "ca_findById j t = Some r"
    and rj: "ca_relationshipStatus r = rejected" by simp_all
  obtain res t' where e: "ca_put_accept now t v q = (res, t')" by (cases "ca_put_accept now t v q")
  from rejected_kept_ca[OF d f rj ca_put_accept_store[OF e]] e
  show "ca_findById j (snd (ca_put_accept now t v q)) = Some r" by simp
  obtain res2 t2 where e2: "ca_put_reject now t v q msg = (res2, t2)"
    by (cases "ca_put_reject now t v q msg")
  from rejected_kept_ca[OF d f rj ca_put_reject_store[OF e2]] e2
  show "ca_findById j (snd (ca_put_reject now t v q msg)) = Some r" by simp
  from ca_settle_keeps_ids[OF ca_put_accept_store[OF e]] d e
  show "distinct (map relationshipId (snd (ca_put_accept now t v q)))" by simp
  from ca_settle_keeps_ids[OF ca_put_reject_store[OF e2]] d e2
  show "distinct (map relationshipId (snd (ca_put_reject now t v q msg)))" by simp
  have closed: "ca_find_open j t = None"
  proof (cases "ca_find_open j t")
    case None
    then show ?thesis .
  next
    case (Some r2)
    from ca_find_open_mem[OF Some] ca_find_open_id[OF Some] ca_findById_mem[OF f] d
    have "r2 = r" by (intro ca_unique_id[of t]) simp_all
    with ca_find_open_status[OF Some] rj show ?thesis by simp
  qed
  then show "ca_put_accept now t v (Some j) = (Inl RecordNotFound, t)"
    and "ca_put_reject now t v (Some j) msg = (Inl RecordNotFound, t)"
    by (simp_all add: ca_put_accept_def ca_put_reject_def)
qed simp

theorem rejected_stays_rejected_under_accept_and_reject_witness:
  "(findById 1 [ex_rejected_friend] = Some ex_rejected_friend \<and>
    relationshipStatus ex_rejected_friend = rejected) \<and>
   (distinct (map relationshipId [ex_rejected_relationship]) \<and>
    ca_findById 1 [ex_rejected_relationship] = Some ex_rejected_relationship \<and>
    ca_relationshipStatus ex_rejected_relationship = rejected) \<and>
   (\<exists>c'. findById 1 (snd (put_accept 5 [ex_rejected_friend] ''U2'' (Some 1))) = Some c' \<and>
      relationshipStatus c' = rejected) \<and>
   (\<exists>c'. findById 1 (snd (put_reject [ex_rejected_friend] ''U2'' (Some 1) (Some ''no''))) = Some c' \<and>
      relationshipStatus c' = rejected) \<and>
   (\<exists>e. put_accept 5 [ex_rejected_friend] ''U2'' (Some 1) = (Inl e, [ex_rejected_friend]) \<and>
      (kind_of e = Forbidden \<or> kind_of e = Conflict)) \<and>
   ca_findById 1 (snd (ca_put_accept 5 [ex_rejected_relationship] ''K1'' (Some 1)))
     = Some ex_rejected_relationship \<and>
   ca_findById 1 (snd (ca_put_reject 5 [ex_rejected_relationship] ''K1'' (Some 1) (Some ''no'')))
     = Some ex_rejected_relationship \<and>
   ca_put_accept 5 [ex_rejected_relationship] ''K1'' (Some 1)
     = (Inl RecordNotFound, [ex_rejected_relationship]) \<and>
   ca_put_reject 5 [ex_rejected_relationship] ''K1'' (Some 1) (Some ''no'')
     = (Inl RecordNotFound, [ex_rejected_relationship])"
proof -
  have h1: "findById 1 [ex_rejected_friend] = Some ex_rejected_friend \<and>
    relationshipStatus ex_rejected_friend = rejected"
    by (simp add: findById_def ex_rejected_friend_def)
  have h2: "distinct (map relationshipId [ex_rejected_relationship]) \<and>
    ca_findById 1 [ex_rejected_relationship] = Some ex_rejected_relationship \<and>
    ca_relationshipStatus ex_rejected_relationship = rejected"
    by (simp add: ca_findById_def ex_rejected_relationship_def)
  note w = rejected_stays_rejected_under_accept_and_reject
             [of 1 "[ex_rejected_friend]" ex_rejected_friend 5 "''U2''" "Some 1" "Some ''no''"
                 "[ex_rejected_relationship]" 1 ex_rejected_relationship "''K1''" "Some 1"]
  note w1 = w[THEN conjunct1, rule_format, OF h1]
  note w2 = w[THEN conjunct2, rule_format, OF h2]
  from w1 have a1: "\<exists>c'. findById 1 (snd (put_accept 5 [ex_rejected_friend] ''U2'' (Some 1))) = Some c' \<and>
      relationshipStatus c' = rejected"
    and a2: "\<exists>c'. findById 1 (snd (put_reject [ex_rejected_friend] ''U2'' (Some 1) (Some ''no''))) = Some c' \<and>
      relationshipStatus c' = rejected"
    and a3: "\<exists>e. put_accept 5 [ex_rejected_friend] ''U2'' (Some 1) = (Inl e, [ex_rejected_friend]) \<and>
      (kind_of e = Forbidden \<or> kind_of e = Conflict)"
    by blast+
  from w2 have b1: "ca_findById 1 (snd (ca_put_accept 5 [ex_rejected_relationship] ''K1'' (Some 1)))
       = Some ex_rejected_relationship"
    and b2: "ca_findById 1 (snd (ca_put_reject 5 [ex_rejected_relationship] ''K1'' (Some 1) (Some ''no'')))
       = Some ex_rejected_relationship"
    and b3: "ca_put_accept 5 [ex_rejected_relationship] ''K1'' (Some 1)
       = (Inl RecordNotFound, [ex_rejected_relationship])"
    and b4: "ca_put_reject 5 [ex_rejected_relationship] ''K1'' (Some 1) (Some ''no'')
       = (Inl RecordNotFound, [ex_rejected_relationship])"
    by blast+
  from h1 h2 a1 a2 a3 b1 b2 b3 b4 show ?thesis by blast
qed




text \<open>
  C9. An update by a user who is no party of the relationship must fail with Forbidden. The
  update handler of the careerAgent route never reads the acting user (the model of the
  handler has no such argument): whoever sends the body that ends a relationship ends the
  active relationship of A1 and K1. The update handler of the connections route makes the
  party check.
\<close>

theorem careerAgent_update_by_anyone:
  "ca_put 9 [ex_active_relationship] (Some 1) ex_end_body
     = (Inr (ex_active_relationship\<lparr>ca_relationshipStatus := inactive, ca_endDate := Some 9\<rparr>),
        [ex_active_relationship\<lparr>ca_relationshipStatus := inactive, ca_endDate := Some 9\<rparr>])"
  by (simp add: ca_put_def ca_update_valid_def ca_apply_update_def ca_eval js_eval
      ex_active_relationship_def ex_end_body_def)

text \<open>
  C10. A successful accept changes nothing but the status and the start date of the
  relationship it names. On the connections route the answered document is the stored one
  with \<open>relationshipStatus\<close> set to active and \<open>startDate\<close> set to the current time: its
  type, its four party ids, its message and its end date are those it had before, it is
  what the collection holds under that id afterwards, and every other document of the
  collection is untouched. The same holds on the careerAgent route for the agent, the
  candidate, the message and the end date.
\<close>

theorem accept_modifies_only_status_and_startDate:
  "(put_accept now s userId param = (Inr c', s') \<longrightarrow>
      (\<exists>i c. param = Some i \<and> findById i s = Some c \<and>
         c' = c\<lparr>relationshipStatus := active, startDate := Some now\<rparr> \<and>
         connectionType c' = connectionType c \<and>
         requestorUserId c' = requestorUserId c \<and> recipientUserId c' = recipientUserId c \<and>
         careerAgentId c' = careerAgentId c \<and> candidateId c' = candidateId c \<and>
         message c' = message c \<and> endDate c' = endDate c \<and>
         findById i s' = Some c' \<and>
         s' = map (\<lambda>x. if connectionId x = i then c' else x) s)) \<and>
   (ca_put_accept now t userId param = (Inr r', t') \<longrightarrow>
      (\<exists>i r. param = Some i \<and> r \<in> set t \<and> relationshipId r = i \<and>
         r' = r\<lparr>ca_relationshipStatus := active, ca_startDate := Some now\<rparr> \<and>
         ca_careerAgentId r' = ca_careerAgentId r \<and> ca_candidateId r' = ca_candidateId r \<and>
         ca_message r' = ca_message r \<and> ca_endDate r' = ca_endDate r \<and>
         ca_findById i t' = Some r' \<and>
         t' = map (\<lambda>x. if relationshipId x = i then r' else x) t))"
proof (intro conjI impI)
  assume a: "put_accept now s userId param = (Inr c', s')"
  then obtain i where p: "param = Some i"
    by (cases param) (auto simp: put_accept_def)
  with a obtain c where f: "findById i s = Some c"
    by (cases "findById i s") (auto simp: put_accept_def)
  let ?d = "c\<lparr>relationshipStatus := active, startDate := Some now\<rparr>"
  from a p f have sv: "save s ?d = Inr s'" and c': "c' = ?d"
    by (auto simp: put_accept_def Let_def split: if_splits sum.splits)
  have idd: "connectionId ?d = i" using findById_id[OF f] by simp
  have "s' = map (\<lambda>x. if connectionId x = i then ?d else x) s"
    by (rule save_existing[OF f idd sv])
  moreover have "findById i s' = Some ?d"
    by (rule findById_saved[OF f idd sv])
  ultimately show "\<exists>i c. param = Some i \<and> findById i s = Some c \<and>
         c' = c\<lparr>relationshipStatus := active, startDate := Some now\<rparr> \<and>
         connectionType c' = connectionType c \<and>
         requestorUserId c' = requestorUserId c \<and> recipientUserId c' = recipientUserId c \<and>
         careerAgentId c' = careerAgentId c \<and> candidateId c' = candidateId c \<and>
         message c' = message c \<and> endDate c' = endDate c \<and>
         findById i s' = Some c' \<and>
         s' = map (\<lambda>x. if connectionId x = i then c' else x) s"
    using p f c' by (intro exI[of _ i] exI[of _ c]) simp
next
  assume a: "ca_put_accept now t userId param = (Inr r', t')"
  then obtain i where p: "param = Some i"
    by (cases param) (auto simp: ca_put_accept_def)
  with a obtain r where f: "ca_find_open i t = Some r"
    by (cases "ca_find_open i t") (auto simp: ca_put_accept_def)
  let ?d = "r\<lparr>ca_relationshipStatus := active, ca_startDate := Some now\<rparr>"
  from a p f have sv: "ca_save t ?d = Inr t'" and r': "r' = ?d"
    by (auto simp: ca_put_accept_def Let_def split: if_splits sum.splits)
  note m = ca_find_open_mem[OF f] and ri = ca_find_open_id[OF f]
  have idd: "relationshipId ?d = i" using ri by simp
  have t': "t' = map (\<lambda>x. if relationshipId x = i then ?d else x) t"
    by (rule ca_save_existing[OF m ri idd sv])
  have "ca_findById i t' = Some ?d"
    unfolding t' by (rule ca_findById_replaced[OF m ri idd])
  then show "\<exists>i r. param = Some i \<and> r \<in> set t \<and> relationshipId r = i \<and>
         r' = r\<lparr>ca_relationshipStatus := active, ca_startDate := Some now\<rparr> \<and>
         ca_careerAgentId r' = ca_careerAgentId r \<and> ca_candidateId r' = ca_candidateId r \<and>
         ca_message r' = ca_message r \<and> ca_endDate r' = ca_endDate r \<and>
         ca_findById i t' = Some r' \<and>
         t' = map (\<lambda>x. if relationshipId x = i then r' else x) t"
    using p m ri r' t' by (intro exI[of _ i] exI[of _ r]) simp
qed

theorem accept_modifies_only_status_and_startDate_witness:
  "put_accept 5 [ex_friend_request] ''U2'' (Some 1) =
     (Inr (ex_friend_request\<lparr>relationshipStatus := active, startDate := Some 5\<rparr>),
      [ex_friend_request\<lparr>relationshipStatus := active, startDate := Some 5\<rparr>]) \<and>
   ca_put_accept 5 [ex_pending_request] ''A1'' (Some 1) =
     (Inr (ex_pending_request\<lparr>ca_relationshipStatus := active, ca_startDate := Some 5\<rparr>),
      [ex_pending_request\<lparr>ca_relationshipStatus := active, ca_startDate := Some 5\<rparr>]) \<and>
   (\<exists>c. findById 1 [ex_friend_request] = Some c \<and>
      message (ex_friend_request\<lparr>relationshipStatus := active, startDate := Some 5\<rparr>) = message c \<and>
      endDate (ex_friend_request\<lparr>relationshipStatus := active, startDate := Some 5\<rparr>) = endDate c) \<and>
   (\<exists>r. r \<in> set [ex_pending_request] \<and>
      ca_message (ex_pending_request\<lparr>ca_relationshipStatus := active, ca_startDate := Some 5\<rparr>) = ca_message r \<and>
      ca_endDate (ex_pending_request\<lparr>ca_relationshipStatus := active, ca_startDate := Some 5\<rparr>) = ca_endDate r)"
proof -
  let ?A = "ex_friend_request\<lparr>relationshipStatus := active, startDate := Some 5\<rparr>"
  let ?B = "ex_pending_request\<lparr>ca_relationshipStatus := active, ca_startDate := Some 5\<rparr>"
  have h1: "put_accept 5 [ex_friend_request] ''U2'' (Some 1) = (Inr ?A, [?A])"
    by (simp add: put_accept_def conn_eval js_eval ex_friend_request_def)
  have h2: "ca_put_accept 5 [ex_pending_request] ''A1'' (Some 1) = (Inr ?B, [?B])"
    by (simp add: ca_put_accept_def ca_eval js_eval ex_pending_request_def)
  note w1 = accept_modifies_only_status_and_startDate
              [of 5 "[ex_friend_request]" "''U2''" "Some 1" ?A "[?A]", THEN conjunct1, rule_format]
  note w2 = accept_modifies_only_status_and_startDate
              [of 5 _ "''A1''" "Some 1" _ _ "[ex_pending_request]" ?B "[?B]", THEN conjunct2, rule_format]
  from w1[OF h1] obtain i c where
    "findById i [ex_friend_request] = Some c" "Some (1::nat) = Some i"
    "message ?A = message c" "endDate ?A = endDate c"
    by blast
  then have c1: "\<exists>c. findById 1 [ex_friend_request] = Some c \<and> message ?A = message c \<and>
      endDate ?A = endDate c"
    by auto
  from w2[OF h2] obtain r where
    "r \<in> set [ex_pending_request]" "ca_message ?B = ca_message r" "ca_endDate ?B = ca_endDate r"
    by blast
  then have c2: "\<exists>r. r \<in> set [ex_pending_request] \<and> ca_message ?B = ca_message r \<and>
      ca_endDate ?B = ca_endDate r"
    by blast
  from h1 h2 c1 c2 show ?thesis by (intro conjI)
qed

end
